theory Spec2Isabelle
  imports
    Complex_Main
    "HOL-Library.AList"
    "HOL-Library.Char_ord"
    "HOL-Library.List_Lexorder"
    "HOL-Library.Multiset"
begin

section \<open>The movie recommender API (main.py)\<close>

text \<open>
  A shallow embedding of the request pipeline of \<^verbatim>\<open>main.py\<close>: the title index built at
  start-up, the title resolver, the TF-IDF ranker, the TMDB helpers and the
  \<^verbatim>\<open>/movie/search\<close> handler.

  Conventions.
  \<^item> A Python exception is a value of \<open>error\<close>; a function that can raise returns
    \<open>error + 'a\<close> with \<open>Inl\<close> for the exception. Only subclasses of \<^verbatim>\<open>Exception\<close>
    are modelled, so \<^verbatim>\<open>except Exception\<close> catches every \<open>Inl\<close>.
  \<^item> Python \<^verbatim>\<open>str\<close> is \<open>string\<close>, restricted to ASCII: \<^verbatim>\<open>lower\<close> and \<^verbatim>\<open>strip\<close> act
    on ASCII letters and ASCII whitespace only.
  \<^item> Python \<^verbatim>\<open>float\<close> is \<open>real\<close>: rounding, infinities and NaN are not modelled.
  \<^item> A \<^verbatim>\<open>dict\<close> is an association list with distinct keys in insertion order;
    \<open>AList.update\<close> is Python's item assignment (a new key is appended, an existing key
    keeps its place and takes the new value).
  \<^item> Library code that is not part of the repository (numpy's \<^verbatim>\<open>argsort\<close>, difflib's
    block matching, \<^verbatim>\<open>str()\<close> of a JSON value, \<^verbatim>\<open>int()\<close> of a string) is a field of the
    record \<open>pylib\<close>, the first argument \<open>L\<close> of the functions that call it.
  \<^item> The TMDB service is a transition function \<open>http\<close> on an abstract world \<open>'w\<close>:
    each call consumes the world and returns the answer with the next world.
\<close>

subsection \<open>Exceptions and JSON values\<close>

text \<open>The \<^verbatim>\<open>detail\<close> of an \<^verbatim>\<open>HTTPException\<close>; \<open>TMDB_error c\<close> is \<^verbatim>\<open>f"TMDB error {c}"\<close>.\<close>

datatype detail = Movie_not_found | Title_not_in_dataset | TMDB_error int

datatype error =
    HTTPException int detail
  | KeyError
  | IndexError
  | TypeError
  | ValueError
  | AttributeError
  | ValidationError
  | TransportError
  | JSONDecodeError

datatype json =
    JNull
  | JBool bool
  | JInt int
  | JFloat real
  | JStr string
  | JArr "json list"
  | JObj "(string \<times> json) list"

record pylib =
  np_argsort :: "real list \<Rightarrow> nat list"
  sm_matches :: "string \<Rightarrow> string \<Rightarrow> nat"
  py_str :: "json \<Rightarrow> string"
  int_of_str :: "string \<Rightarrow> int option"

text \<open>Truth value of a Python object, as \<^verbatim>\<open>if x\<close> and \<^verbatim>\<open>not x\<close> test it.\<close>

fun truthy :: "json \<Rightarrow> bool" where
  "truthy JNull = False"
| "truthy (JBool b) = b"
| "truthy (JInt n) = (n \<noteq> 0)"
| "truthy (JFloat r) = (r \<noteq> 0)"
| "truthy (JStr s) = (s \<noteq> [])"
| "truthy (JArr xs) = (xs \<noteq> [])"
| "truthy (JObj kvs) = (kvs \<noteq> [])"

text \<open>\<^verbatim>\<open>d.get(k)\<close>: \<^verbatim>\<open>None\<close> for a missing key, AttributeError when \<open>d\<close> is no dict.\<close>

fun py_get :: "json \<Rightarrow> string \<Rightarrow> error + json" where
  "py_get (JObj kvs) k = (case map_of kvs k of None \<Rightarrow> Inr JNull | Some v \<Rightarrow> Inr v)"
| "py_get _ k = Inl AttributeError"

text \<open>\<^verbatim>\<open>d.get(k, default)\<close>.\<close>

fun py_get_default :: "json \<Rightarrow> string \<Rightarrow> json \<Rightarrow> error + json" where
  "py_get_default (JObj kvs) k d = (case map_of kvs k of None \<Rightarrow> Inr d | Some v \<Rightarrow> Inr v)"
| "py_get_default _ k d = Inl AttributeError"

text \<open>\<^verbatim>\<open>d[k]\<close> with a string key: KeyError for a missing key, TypeError when \<open>d\<close> is no dict.\<close>

fun py_subscript :: "json \<Rightarrow> string \<Rightarrow> error + json" where
  "py_subscript (JObj kvs) k = (case map_of kvs k of None \<Rightarrow> Inl KeyError | Some v \<Rightarrow> Inr v)"
| "py_subscript _ k = Inl TypeError"

text \<open>\<^verbatim>\<open>x[0]\<close>: the first element of a list, the first character of a string.\<close>

fun py_index0 :: "json \<Rightarrow> error + json" where
  "py_index0 (JArr []) = Inl IndexError"
| "py_index0 (JArr (x # xs)) = Inr x"
| "py_index0 (JStr []) = Inl IndexError"
| "py_index0 (JStr (c # cs)) = Inr (JStr [c])"
| "py_index0 (JObj kvs) = Inl KeyError"
| "py_index0 _ = Inl TypeError"

text \<open>\<^verbatim>\<open>xs[:n]\<close>: a negative \<open>n\<close> counts from the end.\<close>

definition py_slice_to :: "int \<Rightarrow> 'a list \<Rightarrow> 'a list" where
  "py_slice_to n xs =
     (if 0 \<le> n then take (nat n) xs else take (nat (int (length xs) + n)) xs)"

subsection \<open>Title normalisation\<close>

definition py_isspace :: "char \<Rightarrow> bool" where
  "py_isspace c \<longleftrightarrow> (of_char c :: nat) \<in> {9, 10, 11, 12, 13, 28, 29, 30, 31, 32}"

definition py_lower_char :: "char \<Rightarrow> char" where
  "py_lower_char c =
     (let n = (of_char c :: nat) in if 65 \<le> n \<and> n \<le> 90 then char_of (n + 32) else c)"

definition py_strip :: "string \<Rightarrow> string" where
  "py_strip s = rev (dropWhile py_isspace (rev (dropWhile py_isspace s)))"

definition py_lower :: "string \<Rightarrow> string" where
  "py_lower s = map py_lower_char s"

text \<open>\<^verbatim>\<open>_norm_title\<close> (an Isabelle name cannot start with an underscore).\<close>

definition norm_title :: "string \<Rightarrow> string" where
  "norm_title t = py_lower (py_strip t)"

subsection \<open>The similarity index\<close>

text \<open>
  The three module globals set by \<^verbatim>\<open>load_pickles\<close>: the title column of \<^verbatim>\<open>df\<close>, the rows of
  \<^verbatim>\<open>tfidf_matrix\<close>, and \<^verbatim>\<open>TITLE_TO_IDX\<close>.
\<close>

record index_env =
  df_titles :: "string list"
  tfidf_matrix :: "real list list"
  TITLE_TO_IDX :: "(string \<times> int) list"

text \<open>
  \<^verbatim>\<open>{_norm_title(k): int(v) for k, v in indices.items()}\<close>: the items are visited in order
  and each one is assigned into the dict under construction.
\<close>

definition build_title_to_idx_map :: "(string \<times> int) list \<Rightarrow> (string \<times> int) list" where
  "build_title_to_idx_map indices =
     fold (\<lambda>(k, v) d. AList.update (norm_title k) v d) indices []"

subsection \<open>Title resolver\<close>

text \<open>
  difflib: \<^verbatim>\<open>_calculate_ratio\<close>, \<^verbatim>\<open>SequenceMatcher.ratio\<close> with the total size of the
  matching blocks taken from \<open>sm_matches\<close>, and \<^verbatim>\<open>get_close_matches\<close> for \<^verbatim>\<open>n=1\<close>.
  \<^verbatim>\<open>get_close_matches\<close> keeps every possibility \<open>x\<close> whose ratio to the word reaches the
  cutoff (its two quick ratios are upper bounds of the ratio and only save time) and
  returns the largest pair \<open>(ratio, x)\<close>, the first one met among equal pairs.
\<close>

definition calculate_ratio :: "nat \<Rightarrow> nat \<Rightarrow> real" where
  "calculate_ratio matches len = (if len \<noteq> 0 then 2 * real matches / real len else 1)"

definition ratio :: "pylib \<Rightarrow> string \<Rightarrow> string \<Rightarrow> real" where
  "ratio L x word = calculate_ratio (sm_matches L x word) (length x + length word)"

definition pair_less :: "real \<times> string \<Rightarrow> real \<times> string \<Rightarrow> bool" where
  "pair_less p q \<longleftrightarrow> fst p < fst q \<or> (fst p = fst q \<and> snd p < snd q)"

fun nlargest1 :: "(real \<times> string) list \<Rightarrow> (real \<times> string) list" where
  "nlargest1 [] = []"
| "nlargest1 (p # ps) = [foldl (\<lambda>best c. if pair_less best c then c else best) p ps]"

definition get_close_matches :: "pylib \<Rightarrow> string \<Rightarrow> string list \<Rightarrow> real \<Rightarrow> string list" where
  "get_close_matches L word possibilities cutoff =
     map snd (nlargest1
       (map (\<lambda>x. (ratio L x word, x)) (filter (\<lambda>x. cutoff \<le> ratio L x word) possibilities)))"

definition get_best_local_title :: "pylib \<Rightarrow> index_env \<Rightarrow> string \<Rightarrow> string option" where
  "get_best_local_title L env ttl =
     (case get_close_matches L (norm_title ttl) (map fst (TITLE_TO_IDX env)) (6 / 10) of
        [] \<Rightarrow> None
      | m # ms \<Rightarrow> Some m)"

definition get_local_idx_by_title :: "pylib \<Rightarrow> index_env \<Rightarrow> string \<Rightarrow> error + int" where
  "get_local_idx_by_title L env ttl =
     (let key = norm_title ttl in
      case map_of (TITLE_TO_IDX env) key of
        Some r \<Rightarrow> Inr r
      | None \<Rightarrow>
          (case get_best_local_title L env ttl of
             Some fuzzy \<Rightarrow>
               if fuzzy \<noteq> [] then
                 (case map_of (TITLE_TO_IDX env) fuzzy of
                    Some r \<Rightarrow> Inr r
                  | None \<Rightarrow> Inl KeyError)
               else Inl (HTTPException 404 Title_not_in_dataset)
           | None \<Rightarrow> Inl (HTTPException 404 Title_not_in_dataset)))"

subsection \<open>Similarity ranker\<close>

text \<open>
  \<^verbatim>\<open>tfidf_matrix[idx]\<close>: a negative row number counts from the end, a row number out of
  range raises IndexError.
\<close>

definition matrix_row :: "real list list \<Rightarrow> int \<Rightarrow> error + real list" where
  "matrix_row m idx =
     (let n = int (length m) in
      if - n \<le> idx \<and> idx < n then Inr (m ! nat (if idx < 0 then idx + n else idx))
      else Inl IndexError)"

definition dot :: "real list \<Rightarrow> real list \<Rightarrow> real" where
  "dot u v = sum_list (map2 (*) u v)"

text \<open>\<^verbatim>\<open>(tfidf_matrix @ qv.T).toarray().ravel()\<close>\<close>

definition scores_of :: "real list list \<Rightarrow> real list \<Rightarrow> real list" where
  "scores_of m qv = map (\<lambda>row. dot row qv) m"

text \<open>
  The \<^verbatim>\<open>for i in order\<close> loop of \<^verbatim>\<open>tfidf_recommend_titles\<close>; \<^verbatim>\<open>df.iloc[i]\<close> and
  \<^verbatim>\<open>scores[i]\<close> raise IndexError out of range.
\<close>

fun rank_loop ::
  "string list \<Rightarrow> real list \<Rightarrow> int \<Rightarrow> int \<Rightarrow> nat list \<Rightarrow> (string \<times> real) list
     \<Rightarrow> error + (string \<times> real) list" where
  "rank_loop titles scores idx top_n [] out = Inr out"
| "rank_loop titles scores idx top_n (i # order) out =
     (if int i = idx then rank_loop titles scores idx top_n order out
      else if length titles \<le> i \<or> length scores \<le> i then Inl IndexError
      else
        (let out' = out @ [(titles ! i, scores ! i)] in
         if top_n \<le> int (length out') then Inr out'
         else rank_loop titles scores idx top_n order out'))"

definition tfidf_recommend_titles ::
  "pylib \<Rightarrow> index_env \<Rightarrow> string \<Rightarrow> int \<Rightarrow> error + (string \<times> real) list" where
  "tfidf_recommend_titles L env ttl top_n =
     (case get_local_idx_by_title L env ttl of
        Inl e \<Rightarrow> Inl e
      | Inr idx \<Rightarrow>
          (case matrix_row (tfidf_matrix env) idx of
             Inl e \<Rightarrow> Inl e
           | Inr qv \<Rightarrow>
               (let scores = scores_of (tfidf_matrix env) qv;
                    order = np_argsort L (map uminus scores)
                in rank_loop (df_titles env) scores idx top_n order [])))"

text \<open>
  What numpy promises of \<^verbatim>\<open>argsort\<close> on the keys \<open>ks\<close>: the result is a permutation of
  the positions of \<open>ks\<close> along which the keys do not decrease. The default sort kind is
  not stable; \<open>argsort_stable\<close> is \<^verbatim>\<open>argsort(kind='stable')\<close>.
\<close>

definition argsort_ok :: "(real list \<Rightarrow> nat list) \<Rightarrow> real list \<Rightarrow> bool" where
  "argsort_ok srt ks \<longleftrightarrow>
     sort (srt ks) = [0..<length ks] \<and> sorted (map (\<lambda>i. ks ! i) (srt ks))"

definition argsort_stable :: "real list \<Rightarrow> nat list" where
  "argsort_stable ks = sort_key (\<lambda>i. ks ! i) [0..<length ks]"


subsection \<open>TMDB client\<close>

text \<open>
  A request is the path and the parameters that vary: \<open>Search_movie q\<close> is
  \<^verbatim>\<open>/search/movie\<close> with \<^verbatim>\<open>query=q\<close>, \<open>Movie_by_id i\<close> is \<^verbatim>\<open>f"/movie/{i}"\<close>, and
  \<open>Discover_movie g\<close> is \<^verbatim>\<open>/discover/movie\<close> with \<^verbatim>\<open>with_genres=g\<close>. The service answers
  with a status code and a body (\<open>None\<close> when the body is not JSON), or the transport
  fails.
\<close>

datatype tmdb_request = Search_movie string | Movie_by_id json | Discover_movie json

datatype http_result = No_response | Response int "json option"

type_synonym 'w http = "'w \<Rightarrow> tmdb_request \<Rightarrow> http_result \<times> 'w"

definition tmdb_get :: "'w http \<Rightarrow> 'w \<Rightarrow> tmdb_request \<Rightarrow> (error + json) \<times> 'w" where
  "tmdb_get http w req =
     (case http w req of
        (No_response, w') \<Rightarrow> (Inl TransportError, w')
      | (Response status body, w') \<Rightarrow>
          if status \<noteq> 200 then (Inl (HTTPException 502 (TMDB_error status)), w')
          else (case body of
                  None \<Rightarrow> (Inl JSONDecodeError, w')
                | Some j \<Rightarrow> (Inr j, w')))"

record TMDBMovieCard =
  card_tmdb_id :: int
  card_title :: string
  card_poster_url :: "string option"
  card_release_date :: "string option"
  card_vote_average :: "real option"

record TMDBMovieDetails =
  details_tmdb_id :: int
  details_title :: string
  details_overview :: "string option"
  details_release_date :: "string option"
  details_poster_url :: "string option"
  details_backdrop_url :: "string option"
  details_genres :: "json list"

record TFIDFRecItem =
  item_title :: string
  item_score :: real
  item_tmdb :: "TMDBMovieCard option"

record SearchBundleResponse =
  query :: string
  movie_details :: TMDBMovieDetails
  tfidf_recommendations :: "TFIDFRecItem list"
  genre_recommendations :: "TMDBMovieCard list"

text \<open>
  Validation of a field by its declared type: a value of another JSON type is
  rejected (pydantic's coercions between types are not modelled).
\<close>

fun valid_int :: "json \<Rightarrow> error + int" where
  "valid_int (JInt n) = Inr n"
| "valid_int _ = Inl ValidationError"

fun valid_str :: "json \<Rightarrow> error + string" where
  "valid_str (JStr s) = Inr s"
| "valid_str _ = Inl ValidationError"

fun valid_opt_str :: "json \<Rightarrow> error + string option" where
  "valid_opt_str JNull = Inr None"
| "valid_opt_str (JStr s) = Inr (Some s)"
| "valid_opt_str _ = Inl ValidationError"

fun valid_opt_float :: "json \<Rightarrow> error + real option" where
  "valid_opt_float JNull = Inr None"
| "valid_opt_float (JInt n) = Inr (Some (real_of_int n))"
| "valid_opt_float (JFloat r) = Inr (Some r)"
| "valid_opt_float _ = Inl ValidationError"

fun is_dict :: "json \<Rightarrow> bool" where
  "is_dict (JObj kvs) = True"
| "is_dict _ = False"

fun valid_dict_list :: "json \<Rightarrow> error + json list" where
  "valid_dict_list (JArr xs) = (if list_all is_dict xs then Inr xs else Inl ValidationError)"
| "valid_dict_list _ = Inl ValidationError"

text \<open>Sequencing of computations that may raise.\<close>

definition ebind :: "error + 'a \<Rightarrow> ('a \<Rightarrow> error + 'b) \<Rightarrow> error + 'b" where
  "ebind x f = (case x of Inl e \<Rightarrow> Inl e | Inr v \<Rightarrow> f v)"

fun emap :: "('a \<Rightarrow> error + 'b) \<Rightarrow> 'a list \<Rightarrow> error + 'b list" where
  "emap f [] = Inr []"
| "emap f (x # xs) = ebind (f x) (\<lambda>y. ebind (emap f xs) (\<lambda>ys. Inr (y # ys)))"

text \<open>\<^verbatim>\<open>int(x)\<close>\<close>

fun py_int :: "pylib \<Rightarrow> json \<Rightarrow> error + int" where
  "py_int L (JInt n) = Inr n"
| "py_int L (JBool b) = Inr (if b then 1 else 0)"
| "py_int L (JFloat r) = Inr (if 0 \<le> r then \<lfloor>r\<rfloor> else \<lceil>r\<rceil>)"
| "py_int L (JStr s) = (case int_of_str L s of None \<Rightarrow> Inl ValueError | Some n \<Rightarrow> Inr n)"
| "py_int L _ = Inl TypeError"

text \<open>\<^verbatim>\<open>f"{x}"\<close>\<close>

fun py_format :: "pylib \<Rightarrow> json \<Rightarrow> string" where
  "py_format L (JStr s) = s"
| "py_format L j = py_str L j"

definition TMDB_IMG_500 :: string where
  "TMDB_IMG_500 = ''https://image.tmdb.org/t/p/w500''"

definition make_img_url :: "pylib \<Rightarrow> json \<Rightarrow> string option" where
  "make_img_url L path = (if truthy path then Some (TMDB_IMG_500 @ py_format L path) else None)"

text \<open>\<^verbatim>\<open>x or ""\<close>\<close>

definition or_empty :: "json \<Rightarrow> json" where
  "or_empty x = (if truthy x then x else JStr [])"

text \<open>One element of the comprehension of \<^verbatim>\<open>tmdb_cards_from_results\<close>.\<close>

definition card_from_result :: "pylib \<Rightarrow> json \<Rightarrow> error + TMDBMovieCard" where
  "card_from_result L m =
     ebind (py_subscript m ''id'') (\<lambda>i.
     ebind (py_int L i) (\<lambda>tid.
     ebind (py_get m ''title'') (\<lambda>t.
     ebind (py_get m ''poster_path'') (\<lambda>pp.
     ebind (py_get m ''release_date'') (\<lambda>rd.
     ebind (py_get m ''vote_average'') (\<lambda>va.
     ebind (valid_str (or_empty t)) (\<lambda>t'.
     ebind (valid_opt_str rd) (\<lambda>rd'.
     ebind (valid_opt_float va) (\<lambda>va'.
       Inr \<lparr>card_tmdb_id = tid, card_title = t', card_poster_url = make_img_url L pp,
            card_release_date = rd', card_vote_average = va'\<rparr>)))))))))"

text \<open>
  The elements that \<^verbatim>\<open>for m in (results or [])[:limit]\<close> visits: those of a list, the
  characters of a string; any other true value cannot be sliced.
\<close>

fun sliced_results :: "json \<Rightarrow> int \<Rightarrow> error + json list" where
  "sliced_results (JArr xs) limit = Inr (py_slice_to limit xs)"
| "sliced_results (JStr s) limit = Inr (map (\<lambda>c. JStr [c]) (py_slice_to limit s))"
| "sliced_results j limit = (if truthy j then Inl TypeError else Inr [])"

definition tmdb_cards_from_results :: "pylib \<Rightarrow> json \<Rightarrow> int \<Rightarrow> error + TMDBMovieCard list" where
  "tmdb_cards_from_results L results limit =
     ebind (sliced_results results limit) (emap (card_from_result L))"

definition details_from_data :: "pylib \<Rightarrow> json \<Rightarrow> error + TMDBMovieDetails" where
  "details_from_data L data =
     ebind (py_subscript data ''id'') (\<lambda>i.
     ebind (py_get data ''title'') (\<lambda>t.
     ebind (py_get data ''overview'') (\<lambda>ov.
     ebind (py_get data ''release_date'') (\<lambda>rd.
     ebind (py_get data ''poster_path'') (\<lambda>pp.
     ebind (py_get data ''backdrop_path'') (\<lambda>bp.
     ebind (py_get_default data ''genres'' (JArr [])) (\<lambda>gs.
     ebind (valid_int i) (\<lambda>i'.
     ebind (valid_str t) (\<lambda>t'.
     ebind (valid_opt_str ov) (\<lambda>ov'.
     ebind (valid_opt_str rd) (\<lambda>rd'.
     ebind (valid_dict_list gs) (\<lambda>gs'.
       Inr \<lparr>details_tmdb_id = i', details_title = t', details_overview = ov',
            details_release_date = rd', details_poster_url = make_img_url L pp,
            details_backdrop_url = make_img_url L bp, details_genres = gs'\<rparr>))))))))))))"

definition tmdb_movie_details ::
  "pylib \<Rightarrow> 'w http \<Rightarrow> 'w \<Rightarrow> json \<Rightarrow> (error + TMDBMovieDetails) \<times> 'w" where
  "tmdb_movie_details L http w movie_id =
     (case tmdb_get http w (Movie_by_id movie_id) of
        (Inl e, w') \<Rightarrow> (Inl e, w')
      | (Inr data, w') \<Rightarrow> (details_from_data L data, w'))"

text \<open>
  \<^verbatim>\<open>data["results"][0] if data.get("results") else None\<close>; Python's \<^verbatim>\<open>None\<close> is \<open>JNull\<close>.
\<close>

definition first_result :: "json \<Rightarrow> error + json" where
  "first_result data =
     ebind (py_get data ''results'') (\<lambda>rs.
       if truthy rs then ebind (py_subscript data ''results'') py_index0 else Inr JNull)"

definition tmdb_search_first :: "'w http \<Rightarrow> 'w \<Rightarrow> string \<Rightarrow> (error + json) \<times> 'w" where
  "tmdb_search_first http w q =
     (case tmdb_get http w (Search_movie q) of
        (Inl e, w') \<Rightarrow> (Inl e, w')
      | (Inr data, w') \<Rightarrow> (first_result data, w'))"

text \<open>The body of the \<^verbatim>\<open>try\<close> of \<^verbatim>\<open>attach_tmdb_card_by_title\<close> after the search.\<close>

definition card_from_first :: "pylib \<Rightarrow> json \<Rightarrow> error + TMDBMovieCard option" where
  "card_from_first L m =
     (if \<not> truthy m then Inr None
      else
        ebind (py_subscript m ''id'') (\<lambda>i.
        ebind (py_get m ''title'') (\<lambda>t.
        ebind (py_get m ''poster_path'') (\<lambda>pp.
        ebind (py_get m ''release_date'') (\<lambda>rd.
        ebind (py_get m ''vote_average'') (\<lambda>va.
        ebind (valid_int i) (\<lambda>i'.
        ebind (valid_str t) (\<lambda>t'.
        ebind (valid_opt_str rd) (\<lambda>rd'.
        ebind (valid_opt_float va) (\<lambda>va'.
          Inr (Some \<lparr>card_tmdb_id = i', card_title = t', card_poster_url = make_img_url L pp,
                     card_release_date = rd', card_vote_average = va'\<rparr>)))))))))))"

definition attach_body ::
  "pylib \<Rightarrow> 'w http \<Rightarrow> 'w \<Rightarrow> string \<Rightarrow> (error + TMDBMovieCard option) \<times> 'w" where
  "attach_body L http w ttl =
     (case tmdb_search_first http w ttl of
        (Inl e, w') \<Rightarrow> (Inl e, w')
      | (Inr m, w') \<Rightarrow> (card_from_first L m, w'))"

text \<open>\<^verbatim>\<open>try: ... except Exception: return None\<close>\<close>

definition attach_tmdb_card_by_title ::
  "pylib \<Rightarrow> 'w http \<Rightarrow> 'w \<Rightarrow> string \<Rightarrow> (error + TMDBMovieCard option) \<times> 'w" where
  "attach_tmdb_card_by_title L http w ttl =
     (case attach_body L http w ttl of
        (Inl e, w') \<Rightarrow> (Inr None, w')
      | (Inr r, w') \<Rightarrow> (Inr r, w'))"

subsection \<open>The \<^verbatim>\<open>/movie/search\<close> handler\<close>

text \<open>The \<^verbatim>\<open>for t, s in recs\<close> loop, appending to \<^verbatim>\<open>tfidf_items\<close>.\<close>

fun enrich ::
  "pylib \<Rightarrow> 'w http \<Rightarrow> 'w \<Rightarrow> (string \<times> real) list \<Rightarrow> TFIDFRecItem list
     \<Rightarrow> (error + TFIDFRecItem list) \<times> 'w" where
  "enrich L http w [] items = (Inr items, w)"
| "enrich L http w ((t, s) # recs) items =
     (case attach_tmdb_card_by_title L http w t of
        (Inl e, w') \<Rightarrow> (Inl e, w')
      | (Inr c, w') \<Rightarrow>
          enrich L http w' recs (items @ [\<lparr>item_title = t, item_score = s, item_tmdb = c\<rparr>]))"

text \<open>\<^verbatim>\<open>try: recs = tfidf_recommend_titles(...) except Exception: recs = []\<close>\<close>

definition local_recs :: "pylib \<Rightarrow> index_env \<Rightarrow> string \<Rightarrow> int \<Rightarrow> (string \<times> real) list" where
  "local_recs L env ttl top_n =
     (case tfidf_recommend_titles L env ttl top_n of Inl e \<Rightarrow> [] | Inr recs \<Rightarrow> recs)"

text \<open>The genre discovery step: \<^verbatim>\<open>genre_recs\<close> after the \<^verbatim>\<open>if details.genres\<close> block.\<close>

definition genre_step ::
  "pylib \<Rightarrow> 'w http \<Rightarrow> 'w \<Rightarrow> TMDBMovieDetails \<Rightarrow> int \<Rightarrow> (error + TMDBMovieCard list) \<times> 'w" where
  "genre_step L http w details genre_limit =
     (case details_genres details of
        [] \<Rightarrow> (Inr [], w)
      | g # gs \<Rightarrow>
          (case py_subscript g ''id'' of
             Inl e \<Rightarrow> (Inl e, w)
           | Inr gid \<Rightarrow>
               (case tmdb_get http w (Discover_movie gid) of
                  (Inl e, w') \<Rightarrow> (Inl e, w')
                | (Inr d, w') \<Rightarrow>
                    (ebind (py_get_default d ''results'' (JArr []))
                       (\<lambda>rs. tmdb_cards_from_results L rs genre_limit), w'))))"

text \<open>The fallback and the assembly of the response.\<close>

definition fallback_item :: "TMDBMovieCard \<Rightarrow> TFIDFRecItem" where
  "fallback_item c = \<lparr>item_title = card_title c, item_score = 0, item_tmdb = Some c\<rparr>"

definition apply_fallback ::
  "int \<Rightarrow> TFIDFRecItem list \<Rightarrow> TMDBMovieCard list \<Rightarrow> TFIDFRecItem list" where
  "apply_fallback tfidf_top_n tfidf_items genre_recs =
     (if tfidf_items = [] \<and> genre_recs \<noteq> []
      then map fallback_item (py_slice_to tfidf_top_n genre_recs)
      else tfidf_items)"

definition search_bundle ::
  "pylib \<Rightarrow> 'w http \<Rightarrow> index_env \<Rightarrow> 'w \<Rightarrow> string \<Rightarrow> int \<Rightarrow> int
     \<Rightarrow> (error + SearchBundleResponse) \<times> 'w" where
  "search_bundle L http env w q tfidf_top_n genre_limit =
     (case tmdb_search_first http w q of
        (Inl e, w1) \<Rightarrow> (Inl e, w1)
      | (Inr best, w1) \<Rightarrow>
          if \<not> truthy best then (Inl (HTTPException 404 Movie_not_found), w1)
          else
            (case py_subscript best ''id'' of
               Inl e \<Rightarrow> (Inl e, w1)
             | Inr movie_id \<Rightarrow>
                 (case tmdb_movie_details L http w1 movie_id of
                    (Inl e, w2) \<Rightarrow> (Inl e, w2)
                  | (Inr details, w2) \<Rightarrow>
                      (case enrich L http w2
                              (local_recs L env (details_title details) tfidf_top_n) [] of
                         (Inl e, w3) \<Rightarrow> (Inl e, w3)
                       | (Inr tfidf_items, w3) \<Rightarrow>
                           (case genre_step L http w3 details genre_limit of
                              (Inl e, w4) \<Rightarrow> (Inl e, w4)
                            | (Inr genre_recs, w4) \<Rightarrow>
                                (Inr \<lparr>query = q, movie_details = details,
                                      tfidf_recommendations =
                                        apply_fallback tfidf_top_n tfidf_items genre_recs,
                                      genre_recommendations = genre_recs\<rparr>, w4))))))"

text \<open>The errors that reach the client as HTTP 404.\<close>

fun is_404 :: "error \<Rightarrow> bool" where
  "is_404 (HTTPException code d) = (code = 404)"
| "is_404 _ = False"

definition raises_no_404 :: "error + 'a \<Rightarrow> bool" where
  "raises_no_404 x = (case x of Inl e \<Rightarrow> \<not> is_404 e | Inr v \<Rightarrow> True)"

subsection \<open>A small index and a small catalogue\<close>

text \<open>
  The concrete inputs used to run the definitions. The index has three rows; rows 1
  and 2 are equally similar to row 0. The matcher \<open>prefix_matches\<close> counts the common
  prefix of two strings. \<open>argsort_rev\<close> sorts like \<open>argsort_stable\<close> but visits the
  positions from the last to the first, so that equal keys come out in descending
  position. The catalogue answers by request alone and counts the calls in its world.
\<close>

definition prefix_matches :: "string \<Rightarrow> string \<Rightarrow> nat" where
  "prefix_matches a b = length (takeWhile (\<lambda>(x, y). x = y) (zip a b))"


definition demo_lib :: pylib where
  "demo_lib = \<lparr>np_argsort = argsort_stable, sm_matches = prefix_matches,
                py_str = (\<lambda>j. []), int_of_str = (\<lambda>s. None)\<rparr>"

definition demo_env :: index_env where
  "demo_env = \<lparr>df_titles = [''Heat'', ''Up'', ''Ran''],
                tfidf_matrix = [[2, 0], [1, 1], [1, 2]],
                TITLE_TO_IDX = [(''heat'', 0), (''up'', 1), (''ran'', 2)]\<rparr>"

definition movie_obj :: "int \<Rightarrow> string \<Rightarrow> json" where
  "movie_obj i t =
     JObj [(''id'', JInt i), (''title'', JStr t), (''poster_path'', JStr ''/p.jpg''),
           (''release_date'', JNull), (''vote_average'', JInt 7)]"

definition results_body :: "json list \<Rightarrow> http_result" where
  "results_body ms = Response 200 (Some (JObj [(''results'', JArr ms)]))"

definition details_body :: "int \<Rightarrow> string \<Rightarrow> json list \<Rightarrow> http_result" where
  "details_body i t gs =
     Response 200 (Some (JObj [(''id'', JInt i), (''title'', JStr t), (''genres'', JArr gs)]))"

fun demo_answer :: "tmdb_request \<Rightarrow> http_result" where
  "demo_answer (Search_movie q) =
     (if q = ''Heat'' then results_body [movie_obj 1 ''Heat'']
      else if q = ''Solaris'' then results_body [movie_obj 2 ''Solaris'']
      else if q = ''Up'' then results_body [movie_obj 3 ''Up'']
      else if q = ''Ran'' then Response 500 None
      else if q = ''Pi'' then results_body [JObj [(''title'', JStr ''Pi'')]]
      else if q = ''Offline'' then No_response
      else if q = ''Blank'' then results_body [JObj []]
      else if q = ''Orphan'' then results_body [movie_obj 4 ''Orphan'']
      else results_body [])"
| "demo_answer (Movie_by_id i) =
     (if i = JInt 1 then details_body 1 ''Heat'' [JObj [(''id'', JInt 18)]]
      else if i = JInt 2 then details_body 2 ''Solaris'' [JObj [(''id'', JInt 878)]]
      else if i = JInt 4 then details_body 4 ''Orphan'' []
      else Response 404 None)"
| "demo_answer (Discover_movie g) =
     (if g = JInt 878
      then results_body [movie_obj 10 ''Alien'', movie_obj 11 ''Brazil'', movie_obj 12 ''Stalker'']
      else if g = JInt 18 then results_body [movie_obj 3 ''Up'']
      else results_body [])"

definition demo_http :: "nat http" where
  "demo_http w req = (demo_answer req, Suc w)"

definition demo_card :: "int \<Rightarrow> string \<Rightarrow> TMDBMovieCard" where
  "demo_card i t =
     \<lparr>card_tmdb_id = i, card_title = t,
      card_poster_url = Some ''https://image.tmdb.org/t/p/w500/p.jpg'',
      card_release_date = None, card_vote_average = Some 7\<rparr>"

definition demo_details :: "int \<Rightarrow> string \<Rightarrow> json list \<Rightarrow> TMDBMovieDetails" where
  "demo_details i t gs =
     \<lparr>details_tmdb_id = i, details_title = t, details_overview = None,
      details_release_date = None, details_poster_url = None, details_backdrop_url = None,
      details_genres = gs\<rparr>"

section \<open>The title index\<close>

lemma fold_update_map_of:
  "map_of (fold (\<lambda>(k, v) d. AList.update (norm_title k) v d) xs d) =
     map_of d ++ map_of (rev (map (\<lambda>(k, v). (norm_title k, v)) xs))"
proof (induction xs arbitrary: d)
  case Nil
  show ?case by simp
next
  case (Cons x xs)
  obtain k v where x: "x = (k, v)" by (cases x)
  have "(map_of d)(norm_title k \<mapsto> v) = map_of d ++ [norm_title k \<mapsto> v]"
    by simp
  then show ?case
    using Cons.IH [of "AList.update (norm_title k) v d"]
    by (simp add: x update_conv' del: map_add_upd)
qed

lemma fold_update_distinct:
  "distinct (map fst d) \<Longrightarrow>
   distinct (map fst (fold (\<lambda>(k, v) d. AList.update (norm_title k) v d) xs d))"
  by (induction xs arbitrary: d) (auto simp: distinct_update)

lemma fold_update_keys:
  "fst ` set (fold (\<lambda>(k, v) d. AList.update (norm_title k) v d) xs d) =
     fst ` set d \<union> norm_title ` fst ` set xs"
proof (induction xs arbitrary: d)
  case Nil
  show ?case by simp
next
  case (Cons x xs)
  obtain k v where x: "x = (k, v)" by (cases x)
  show ?case
    by (simp add: x Cons.IH dom_update Un_assoc)
qed

text \<open>
  Claim C9. The index built at load time is a dict: its keys are pairwise distinct, so a
  normalised key has exactly one row id, and the keys are exactly the normalised source
  titles. When several source titles normalise to the same key, the key holds the row
  of the last of them in loading order: if \<open>(t, v)\<close> is an item and no later item
  normalises to the key of \<open>t\<close>, the index maps that key to \<open>v\<close>.
\<close>

theorem title_index_last_wins:
  "distinct (map fst (build_title_to_idx_map indices)) \<and>
   fst ` set (build_title_to_idx_map indices) = norm_title ` fst ` set indices \<and>
   (\<forall>xs t v ys.
      indices = xs @ (t, v) # ys \<and> (\<forall>p \<in> set ys. norm_title (fst p) \<noteq> norm_title t)
      \<longrightarrow> map_of (build_title_to_idx_map indices) (norm_title t) = Some v)"
proof (intro conjI allI impI)
  show "distinct (map fst (build_title_to_idx_map indices))"
    unfolding build_title_to_idx_map_def by (rule fold_update_distinct) simp
  show "fst ` set (build_title_to_idx_map indices) = norm_title ` fst ` set indices"
    unfolding build_title_to_idx_map_def by (simp add: fold_update_keys)
next
  fix xs t v ys
  assume h: "indices = xs @ (t, v) # ys \<and> (\<forall>p \<in> set ys. norm_title (fst p) \<noteq> norm_title t)"
  let ?f = "\<lambda>(k, v). (norm_title k, v)"
  have "map_of (rev (map ?f ys)) (norm_title t) = None"
    using h by (force simp: map_of_eq_None_iff image_iff)
  then show "map_of (build_title_to_idx_map indices) (norm_title t) = Some v"
    using h unfolding build_title_to_idx_map_def
    by (simp add: fold_update_map_of map_add_def update_conv')
qed

lemma norm_Heat: "norm_title ''Heat'' = ''heat''"
  by code_simp

lemma norm_HEAT_padded: "norm_title ''  HEAT '' = ''heat''"
  by code_simp

lemma norm_Up: "norm_title ''Up'' = ''up''"
  by code_simp

lemma norm_Heal: "norm_title ''Heal'' = ''heal''"
  by code_simp

lemma norm_Solaris: "norm_title ''Solaris'' = ''solaris''"
  by code_simp

lemma norm_Orphan: "norm_title ''Orphan'' = ''orphan''"
  by code_simp

text \<open>
  Three titles are loaded, the first two with the same normalised key: the key holds
  row 1, the later of the two.
\<close>

theorem title_index_last_wins_witness:
  "norm_title ''Up'' \<noteq> norm_title ''  HEAT '' \<and>
   map_of (build_title_to_idx_map [(''Heat'', 0), (''  HEAT '', 1), (''Up'', 2)])
     (norm_title ''  HEAT '') = Some 1"
proof -
  have ne: "norm_title ''Up'' \<noteq> norm_title ''  HEAT ''"
    by (simp add: norm_Up norm_HEAT_padded)
  have "[(''Heat'', 0), (''  HEAT '', 1), (''Up'', 2)] =
          [(''Heat'', 0::int)] @ (''  HEAT '', 1) # [(''Up'', 2)] \<and>
        (\<forall>p \<in> set [(''Up'', 2::int)]. norm_title (fst p) \<noteq> norm_title ''  HEAT '')"
    using ne by simp
  with title_index_last_wins [of "[(''Heat'', 0), (''  HEAT '', 1), (''Up'', 2)]"]
  have "map_of (build_title_to_idx_map [(''Heat'', 0), (''  HEAT '', 1), (''Up'', 2)])
          (norm_title ''  HEAT '') = Some 1"
    by blast
  with ne show ?thesis by simp
qed

section \<open>The title resolver\<close>

lemma foldl_pick:
  "foldl (\<lambda>best c. if pair_less best c then c else best) p ps \<in> set (p # ps)"
  by (induction ps arbitrary: p) auto

lemma nlargest1_subset: "set (nlargest1 ps) \<subseteq> set ps"
  using foldl_pick by (cases ps) auto

lemma nlargest1_Nil: "nlargest1 ps = [] \<longleftrightarrow> ps = []"
  by (cases ps) auto

lemma get_close_matches_unique:
  assumes "k \<in> set keys" "c \<le> ratio L k w"
    and "\<forall>x \<in> set keys. x \<noteq> k \<longrightarrow> ratio L x w < c"
  shows "\<exists>ms. get_close_matches L w keys c = k # ms"
proof -
  let ?F = "filter (\<lambda>x. c \<le> ratio L x w) keys"
  let ?P = "map (\<lambda>x. (ratio L x w, x)) ?F"
  have ne: "?P \<noteq> []" using assms(1,2) by (auto simp: filter_empty_conv)
  have all: "set ?F \<subseteq> {k}" using assms(3) by force
  have "nlargest1 ?P \<noteq> []" using ne by (simp only: nlargest1_Nil not_False_eq_True)
  moreover have "set (map snd (nlargest1 ?P)) \<subseteq> {k}"
    using nlargest1_subset [of ?P] all by force
  ultimately show ?thesis
    unfolding get_close_matches_def by (cases "nlargest1 ?P") auto
qed

lemma get_close_matches_none:
  assumes "\<forall>x \<in> set keys. ratio L x w < c"
  shows "get_close_matches L w keys c = []"
proof -
  have "filter (\<lambda>x. c \<le> ratio L x w) keys = []"
    using assms by (auto simp: filter_empty_conv)
  then show ?thesis by (simp add: get_close_matches_def)
qed

text \<open>
  Claim C4. When the normalised title is a key of the index, the resolver returns the
  row id stored under that key. The result is the same for every library \<open>L\<close>, hence
  for every matcher: the approximate match has no part in it.
\<close>

theorem resolve_exact:
  "map_of (TITLE_TO_IDX env) (norm_title t) = Some r \<Longrightarrow>
   get_local_idx_by_title L env t = Inr r"
  by (simp add: get_local_idx_by_title_def)

theorem resolve_exact_witness:
  "map_of (TITLE_TO_IDX demo_env) (norm_title ''  HEAT '') = Some 0 \<and>
   get_local_idx_by_title demo_lib demo_env ''  HEAT '' = Inr 0"
proof -
  have h: "map_of (TITLE_TO_IDX demo_env) (norm_title ''  HEAT '') = Some 0"
    by (simp add: norm_HEAT_padded demo_env_def)
  from resolve_exact [OF h, of demo_lib] h show ?thesis by simp
qed

text \<open>
  Claim C5. Let the normalised title be no key of the index, and let the matcher never
  count more matching characters than its first string has (as difflib's does). If the
  key \<open>k\<close> has ratio at least 0.6 to the title and every other key has a ratio below
  0.6, the resolver returns the row id stored under \<open>k\<close>. If every key has a ratio below
  0.6, the resolver raises HTTPException 404.
\<close>

theorem resolve_fuzzy:
  assumes bounded: "\<And>a b. sm_matches L a b \<le> length a"
    and miss: "map_of (TITLE_TO_IDX env) (norm_title t) = None"
  shows "(map_of (TITLE_TO_IDX env) k = Some r \<and> 6 / 10 \<le> ratio L k (norm_title t) \<and>
          (\<forall>x \<in> fst ` set (TITLE_TO_IDX env). x \<noteq> k \<longrightarrow> ratio L x (norm_title t) < 6 / 10)
            \<longrightarrow> get_local_idx_by_title L env t = Inr r) \<and>
         ((\<forall>x \<in> fst ` set (TITLE_TO_IDX env). ratio L x (norm_title t) < 6 / 10)
            \<longrightarrow> get_local_idx_by_title L env t = Inl (HTTPException 404 Title_not_in_dataset))"
proof (intro conjI impI)
  assume h: "map_of (TITLE_TO_IDX env) k = Some r \<and> 6 / 10 \<le> ratio L k (norm_title t) \<and>
          (\<forall>x \<in> fst ` set (TITLE_TO_IDX env). x \<noteq> k \<longrightarrow> ratio L x (norm_title t) < 6 / 10)"
  then have kin: "k \<in> set (map fst (TITLE_TO_IDX env))"
    by (metis map_of_eq_None_iff option.distinct(1) set_map)
  have "k \<noteq> []"
  proof
    assume e: "k = []"
    have "sm_matches L [] (norm_title t) = 0" using bounded [of "[]" "norm_title t"] by simp
    then have "ratio L k (norm_title t) = (if norm_title t = [] then 1 else 0)"
      by (simp add: ratio_def calculate_ratio_def e)
    with h have "norm_title t = []" by (auto split: if_splits)
    with h e miss show False by simp
  qed
  moreover obtain ms where
    "get_close_matches L (norm_title t) (map fst (TITLE_TO_IDX env)) (6 / 10) = k # ms"
    using get_close_matches_unique [OF kin, of "6 / 10" L "norm_title t"] h by auto
  ultimately show "get_local_idx_by_title L env t = Inr r"
    using h miss by (simp add: get_local_idx_by_title_def get_best_local_title_def)
next
  assume "\<forall>x \<in> fst ` set (TITLE_TO_IDX env). ratio L x (norm_title t) < 6 / 10"
  then have "get_close_matches L (norm_title t) (map fst (TITLE_TO_IDX env)) (6 / 10) = []"
    by (intro get_close_matches_none) simp
  then show "get_local_idx_by_title L env t = Inl (HTTPException 404 Title_not_in_dataset)"
    using miss by (simp add: get_local_idx_by_title_def get_best_local_title_def)
qed

lemma prefix_matches_bounded: "prefix_matches a b \<le> length a"
proof -
  have "length (takeWhile (\<lambda>(x, y). x = y) (zip a b)) \<le> length (zip a b)"
    by (rule length_takeWhile_le)
  then show ?thesis by (simp add: prefix_matches_def)
qed

lemma demo_ratio_heal:
  "ratio demo_lib ''heat'' ''heal'' = 3 / 4"
  "ratio demo_lib ''up'' ''heal'' = 0"
  "ratio demo_lib ''ran'' ''heal'' = 0"
  by (simp_all add: ratio_def calculate_ratio_def demo_lib_def prefix_matches_def)

lemma demo_ratio_stranger:
  "w = ''solaris'' \<or> w = ''orphan'' \<Longrightarrow>
   ratio demo_lib ''heat'' w = 0 \<and> ratio demo_lib ''up'' w = 0 \<and> ratio demo_lib ''ran'' w = 0"
  by (auto simp: ratio_def calculate_ratio_def demo_lib_def prefix_matches_def)

lemma demo_keys: "fst ` set (TITLE_TO_IDX demo_env) = {''heat'', ''up'', ''ran''}"
  by (simp add: demo_env_def)

text \<open>
  In the small index, ``Heal'' is no key and is close to ``heat'' alone (ratio 3/4), so
  it resolves to row 0; ``Solaris'' is close to no key and is not found.
\<close>

theorem resolve_fuzzy_witness:
  "map_of (TITLE_TO_IDX demo_env) (norm_title ''Heal'') = None \<and>
   6 / 10 \<le> ratio demo_lib ''heat'' (norm_title ''Heal'') \<and>
   get_local_idx_by_title demo_lib demo_env ''Heal'' = Inr 0 \<and>
   map_of (TITLE_TO_IDX demo_env) (norm_title ''Solaris'') = None \<and>
   get_local_idx_by_title demo_lib demo_env ''Solaris'' =
     Inl (HTTPException 404 Title_not_in_dataset)"
proof -
  have b: "\<And>a b. sm_matches demo_lib a b \<le> length a"
    by (simp add: demo_lib_def prefix_matches_bounded)
  have m1: "map_of (TITLE_TO_IDX demo_env) (norm_title ''Heal'') = None"
    by (simp add: norm_Heal demo_env_def)
  have m2: "map_of (TITLE_TO_IDX demo_env) (norm_title ''Solaris'') = None"
    by (simp add: norm_Solaris demo_env_def)
  have k: "map_of (TITLE_TO_IDX demo_env) ''heat'' = Some 0" by (simp add: demo_env_def)
  have a1: "get_local_idx_by_title demo_lib demo_env ''Heal'' = Inr 0"
    using resolve_fuzzy [OF b m1, of "''heat''" 0] k
    by (simp add: demo_keys norm_Heal demo_ratio_heal)
  have a2: "get_local_idx_by_title demo_lib demo_env ''Solaris'' =
      Inl (HTTPException 404 Title_not_in_dataset)"
    using resolve_fuzzy [OF b m2, of "''heat''" 0] demo_ratio_stranger [of "''solaris''"]
    by (simp add: demo_keys norm_Solaris)
  show ?thesis using m1 m2 a1 a2 by (simp add: norm_Heal demo_ratio_heal)
qed

section \<open>The similarity ranker\<close>

text \<open>
  The loop in closed form: it keeps the rows of \<open>order\<close> other than \<open>idx\<close> and stops
  after the append that brings the length of \<open>out\<close> to \<open>top_n\<close>. The test comes after
  the append, so at least one row is taken when there is one.
\<close>

lemma rank_loop_closed:
  assumes "\<forall>i \<in> set order. i < length titles \<and> i < length scores"
  shows "rank_loop titles scores idx top_n order out =
           Inr (out @ take (nat (max 1 (top_n - int (length out))))
                  (map (\<lambda>i. (titles ! i, scores ! i)) (filter (\<lambda>i. int i \<noteq> idx) order)))"
  using assms
proof (induction order arbitrary: out)
  case Nil
  show ?case by simp
next
  case (Cons i order)
  show ?case
  proof (cases "int i = idx")
    case True
    then show ?thesis using Cons by simp
  next
    case False
    have b: "i < length titles" "i < length scores" using Cons.prems by simp_all
    show ?thesis
    proof (cases "top_n \<le> int (length out) + 1")
      case True
      then have "nat (max 1 (top_n - int (length out))) = 1" by simp
      then show ?thesis using False b True by (simp add: Let_def)
    next
      case stop: False
      then have "nat (max 1 (top_n - int (length out))) =
          Suc (nat (max 1 (top_n - int (length (out @ [(titles ! i, scores ! i)])))))"
        by simp
      then show ?thesis
        using False b stop Cons.IH [of "out @ [(titles ! i, scores ! i)]"] Cons.prems
        by (simp add: Let_def)
    qed
  qed
qed

lemma argsort_ok_set:
  assumes "argsort_ok srt ks"
  shows "set (srt ks) = {0..<length ks}"
proof -
  have "set (sort (srt ks)) = set [0..<length ks]" using assms by (simp add: argsort_ok_def)
  then show ?thesis by simp
qed





lemma tfidf_recommend_titles_closed:
  assumes idx: "get_local_idx_by_title L env t = Inr idx"
    and row: "matrix_row (tfidf_matrix env) idx = Inr qv"
    and len: "length (tfidf_matrix env) \<le> length (df_titles env)"
    and scores: "scores = scores_of (tfidf_matrix env) qv"
    and ok: "argsort_ok (np_argsort L) (map uminus scores)"
  shows "tfidf_recommend_titles L env t top_n =
           Inr (map (\<lambda>i. (df_titles env ! i, scores ! i))
                  (take (nat (max 1 top_n))
                     (filter (\<lambda>i. int i \<noteq> idx) (np_argsort L (map uminus scores)))))"
proof -
  have n: "length scores = length (tfidf_matrix env)" by (simp add: scores scores_of_def)
  have "\<forall>i \<in> set (np_argsort L (map uminus scores)).
          i < length (df_titles env) \<and> i < length scores"
    using argsort_ok_set [OF ok] len n by auto
  from rank_loop_closed [OF this, of idx top_n "[]"]
  show ?thesis
    using idx row scores by (simp add: tfidf_recommend_titles_def take_map Let_def)
qed

text \<open>
  For every \<open>top_n\<close> the row asked about is never returned and no row is returned
  twice. The bound on the length is \<open>max 1 top_n\<close>.
\<close>

lemma rank_excludes_self_bounded:
  assumes idx: "get_local_idx_by_title L env t = Inr idx"
    and row: "matrix_row (tfidf_matrix env) idx = Inr qv"
    and len: "length (tfidf_matrix env) \<le> length (df_titles env)"
    and scores: "scores = scores_of (tfidf_matrix env) qv"
    and ok: "argsort_ok (np_argsort L) (map uminus scores)"
  shows "\<exists>rows. tfidf_recommend_titles L env t top_n =
                  Inr (map (\<lambda>i. (df_titles env ! i, scores ! i)) rows) \<and>
                (\<forall>i \<in> set rows. int i \<noteq> idx) \<and> distinct rows \<and>
                int (length rows) \<le> max 1 top_n"
proof -
  let ?order = "np_argsort L (map uminus scores)"
  let ?rows = "take (nat (max 1 top_n)) (filter (\<lambda>i. int i \<noteq> idx) ?order)"
  have "distinct (sort ?order)" using ok by (simp add: argsort_ok_def)
  then have d: "distinct ?rows" by simp
  have s: "\<forall>i \<in> set ?rows. int i \<noteq> idx"
    using set_take_subset [of "nat (max 1 top_n)" "filter (\<lambda>i. int i \<noteq> idx) ?order"] by auto
  have l: "int (length ?rows) \<le> max 1 top_n" by simp
  show ?thesis
    using tfidf_recommend_titles_closed [OF assms, of top_n] d s l by blast
qed

lemma demo_scores: "scores_of (tfidf_matrix demo_env) [2, 0] = [4, 2, 2]"
  by (simp add: scores_of_def dot_def demo_env_def)

lemma demo_idx_Heat: "get_local_idx_by_title L demo_env ''Heat'' = Inr 0"
  by (simp add: get_local_idx_by_title_def norm_Heat demo_env_def)

lemma demo_row0: "matrix_row (tfidf_matrix demo_env) 0 = Inr [2, 0]"
  by (simp add: matrix_row_def demo_env_def)

lemma demo_rank_Heat:
  "np_argsort L (map uminus [4, 2, 2]) = order \<Longrightarrow>
   tfidf_recommend_titles L demo_env ''Heat'' top_n =
     rank_loop [''Heat'', ''Up'', ''Ran''] [4, 2, 2] 0 top_n order []"
  using demo_scores
  by (simp add: tfidf_recommend_titles_def demo_idx_Heat demo_row0) (simp add: demo_env_def)


lemma demo_order_stable: "argsort_stable (map uminus [4, 2, 2]) = [0, 1, 2]"
  by code_simp

lemma demo_local_Heat:
  "tfidf_recommend_titles demo_lib demo_env ''Heat'' 12 = Inr [(''Up'', 2), (''Ran'', 2)]"
proof -
  have "np_argsort demo_lib (map uminus [4, 2, 2]) = [0, 1, 2]"
    using demo_order_stable by (simp add: demo_lib_def)
  from demo_rank_Heat [OF this] show ?thesis by simp
qed

text \<open>
  Claim C2 (code defect). The claim bounds the result by \<open>top_n\<close> items. With
  \<open>top_n = 0\<close> the loop appends the first row other than the one asked about and only
  then compares the length with \<open>top_n\<close>: the ranker returns one item. The slice
  \<^verbatim>\<open>genre_recs[:tfidf_top_n]\<close> of the fallback in the same handler returns none for the
  same \<open>top_n\<close>.
\<close>

theorem rank_top_n_zero:
  "tfidf_recommend_titles demo_lib demo_env ''Heat'' 0 = Inr [(''Up'', 2)] \<and>
   py_slice_to 0 [demo_card 10 ''Alien'', demo_card 11 ''Brazil''] = []"
proof -
  have "np_argsort demo_lib (map uminus [4, 2, 2]) = [0, 1, 2]"
    using demo_order_stable by (simp add: demo_lib_def)
  from demo_rank_Heat [OF this] show ?thesis by (simp add: py_slice_to_def)
qed




section \<open>Enrichment\<close>

lemma attach_total:
  "\<exists>r w'. attach_tmdb_card_by_title L http w t = (Inr r, w')"
  by (simp add: attach_tmdb_card_by_title_def split: prod.splits sum.splits)

lemma enrich_total:
  "\<exists>new w'. enrich L http w recs items = (Inr (items @ new), w') \<and>
            map item_title new = map fst recs \<and> map item_score new = map snd recs"
proof (induction recs arbitrary: w items)
  case Nil
  show ?case by simp
next
  case (Cons p recs)
  obtain t s where p: "p = (t, s)" by (cases p)
  obtain c w1 where a: "attach_tmdb_card_by_title L http w t = (Inr c, w1)"
    using attach_total [of L http w t] by auto
  let ?it = "\<lparr>item_title = t, item_score = s, item_tmdb = c\<rparr>"
  obtain new w' where n:
    "enrich L http w1 recs (items @ [?it]) = (Inr ((items @ [?it]) @ new), w')"
    "map item_title new = map fst recs" "map item_score new = map snd recs"
    using Cons.IH [of w1 "items @ [?it]"] by blast
  show ?case
    by (rule exI [of _ "?it # new"], rule exI [of _ w']) (simp add: p a n)
qed

text \<open>
  Claim C8. The enrichment call always returns, with a card or with \<^verbatim>\<open>None\<close>; it never
  raises. Whatever the body of its \<^verbatim>\<open>try\<close> raises becomes \<^verbatim>\<open>None\<close>: in particular a
  status other than 200, a failed transport, and a first result without an \<^verbatim>\<open>id\<close>. The
  enrichment loop therefore runs to its end for every list of hits and returns one
  item per hit, with the titles and scores of the hits in their order.
\<close>

theorem enrichment_never_raises:
  "(\<exists>r w'. attach_tmdb_card_by_title L http w t = (Inr r, w')) \<and>
   (\<forall>e w'. attach_body L http w t = (Inl e, w')
      \<longrightarrow> attach_tmdb_card_by_title L http w t = (Inr None, w')) \<and>
   (\<forall>status body w'. http w (Search_movie t) = (Response status body, w') \<and> status \<noteq> 200
      \<longrightarrow> attach_tmdb_card_by_title L http w t = (Inr None, w')) \<and>
   (\<forall>w'. http w (Search_movie t) = (No_response, w')
      \<longrightarrow> attach_tmdb_card_by_title L http w t = (Inr None, w')) \<and>
   (\<forall>m w'. tmdb_search_first http w t = (Inr m, w') \<and> py_subscript m ''id'' = Inl KeyError
      \<longrightarrow> attach_tmdb_card_by_title L http w t = (Inr None, w')) \<and>
   (\<exists>items w'. enrich L http w recs [] = (Inr items, w') \<and>
      map item_title items = map fst recs \<and> map item_score items = map snd recs)"
proof (intro conjI allI impI)
  show "\<exists>r w'. attach_tmdb_card_by_title L http w t = (Inr r, w')"
    by (rule attach_total)
  show "\<exists>items w'. enrich L http w recs [] = (Inr items, w') \<and>
      map item_title items = map fst recs \<and> map item_score items = map snd recs"
    using enrich_total [of L http w recs "[]"] by auto
next
  fix e w'
  assume "attach_body L http w t = (Inl e, w')"
  then show "attach_tmdb_card_by_title L http w t = (Inr None, w')"
    by (simp add: attach_tmdb_card_by_title_def)
next
  fix status body w'
  assume "http w (Search_movie t) = (Response status body, w') \<and> status \<noteq> 200"
  then show "attach_tmdb_card_by_title L http w t = (Inr None, w')"
    by (simp add: attach_tmdb_card_by_title_def attach_body_def tmdb_search_first_def
        tmdb_get_def)
next
  fix w'
  assume "http w (Search_movie t) = (No_response, w')"
  then show "attach_tmdb_card_by_title L http w t = (Inr None, w')"
    by (simp add: attach_tmdb_card_by_title_def attach_body_def tmdb_search_first_def
        tmdb_get_def)
next
  fix m w'
  assume "tmdb_search_first http w t = (Inr m, w') \<and> py_subscript m ''id'' = Inl KeyError"
  then show "attach_tmdb_card_by_title L http w t = (Inr None, w')"
    by (simp add: attach_tmdb_card_by_title_def attach_body_def card_from_first_def ebind_def)
qed

lemmas json_ops = first_result_def ebind_def card_from_first_def card_from_result_def
  details_from_data_def make_img_url_def or_empty_def TMDB_IMG_500_def
  tmdb_cards_from_results_def py_slice_to_def

lemmas demo_bodies = demo_http_def results_body_def details_body_def movie_obj_def tmdb_get_def

lemma demo_search_hit:
  "q \<in> {''Heat'', ''Solaris'', ''Up'', ''Orphan''} \<Longrightarrow>
   tmdb_search_first demo_http w q =
     (Inr (movie_obj (if q = ''Heat'' then 1 else if q = ''Solaris'' then 2
                       else if q = ''Up'' then 3 else 4) q), Suc w)"
  by (auto simp: tmdb_search_first_def demo_bodies json_ops)

lemma demo_search_Nope: "tmdb_search_first demo_http w ''Nope'' = (Inr JNull, Suc w)"
  by (simp add: tmdb_search_first_def demo_bodies json_ops)

lemma demo_search_Blank: "tmdb_search_first demo_http w ''Blank'' = (Inr (JObj []), Suc w)"
  by (simp add: tmdb_search_first_def demo_bodies json_ops)

lemma demo_search_Pi:
  "tmdb_search_first demo_http w ''Pi'' = (Inr (JObj [(''title'', JStr ''Pi'')]), Suc w)"
  by (simp add: tmdb_search_first_def demo_bodies json_ops)

lemma demo_movie_id: "py_subscript (movie_obj i t) ''id'' = Inr (JInt i)"
  by (simp add: movie_obj_def)

lemma demo_movie_truthy: "truthy (movie_obj i t)"
  by (simp add: movie_obj_def)

lemma demo_attach_Up:
  "attach_tmdb_card_by_title demo_lib demo_http w ''Up'' = (Inr (Some (demo_card 3 ''Up'')), Suc w)"
  by (simp add: attach_tmdb_card_by_title_def attach_body_def demo_search_hit)
     (simp add: movie_obj_def demo_card_def json_ops)

lemma demo_attach_Ran:
  "attach_tmdb_card_by_title demo_lib demo_http w ''Ran'' = (Inr None, Suc w)"
  by (simp add: attach_tmdb_card_by_title_def attach_body_def tmdb_search_first_def demo_bodies)

lemma demo_enrich_Heat:
  "enrich demo_lib demo_http w [(''Up'', 2), (''Ran'', 2)] [] =
     (Inr [\<lparr>item_title = ''Up'', item_score = 2, item_tmdb = Some (demo_card 3 ''Up'')\<rparr>,
           \<lparr>item_title = ''Ran'', item_score = 2, item_tmdb = None\<rparr>], Suc (Suc w))"
  by (simp add: demo_attach_Up demo_attach_Ran)

text \<open>
  The catalogue answers the search for ``Ran'' with status 500, does not answer the
  search for ``Offline'', and answers the search for ``Pi'' with a result that has no
  \<^verbatim>\<open>id\<close>: each enrichment returns \<^verbatim>\<open>None\<close>, and the loop over the hits ``Up'' and ``Ran''
  returns both items.
\<close>

theorem enrichment_never_raises_witness:
  "demo_http 0 (Search_movie ''Ran'') = (Response 500 None, 1) \<and>
   attach_tmdb_card_by_title demo_lib demo_http 0 ''Ran'' = (Inr None, 1) \<and>
   demo_http 0 (Search_movie ''Offline'') = (No_response, 1) \<and>
   attach_tmdb_card_by_title demo_lib demo_http 0 ''Offline'' = (Inr None, 1) \<and>
   tmdb_search_first demo_http 0 ''Pi'' = (Inr (JObj [(''title'', JStr ''Pi'')]), 1) \<and>
   py_subscript (JObj [(''title'', JStr ''Pi'')]) ''id'' = Inl KeyError \<and>
   attach_body demo_lib demo_http 0 ''Pi'' = (Inl KeyError, 1) \<and>
   attach_tmdb_card_by_title demo_lib demo_http 0 ''Pi'' = (Inr None, 1) \<and>
   (\<exists>items w'. enrich demo_lib demo_http 0 [(''Up'', 2), (''Ran'', 2)] [] = (Inr items, w') \<and>
      map item_title items = [''Up'', ''Ran''] \<and> map item_score items = [2, 2])"
proof -
  have ran: "demo_http 0 (Search_movie ''Ran'') = (Response 500 None, 1)"
    by (simp add: demo_http_def)
  have off: "demo_http 0 (Search_movie ''Offline'') = (No_response, 1)"
    by (simp add: demo_http_def)
  have pi: "tmdb_search_first demo_http 0 ''Pi'' = (Inr (JObj [(''title'', JStr ''Pi'')]), 1)"
    using demo_search_Pi [of 0] by simp
  have key: "py_subscript (JObj [(''title'', JStr ''Pi'')]) ''id'' = Inl KeyError"
    by simp
  have body: "attach_body demo_lib demo_http 0 ''Pi'' = (Inl KeyError, 1)"
    by (simp add: attach_body_def pi card_from_first_def ebind_def)
  have a: "attach_tmdb_card_by_title demo_lib demo_http 0 ''Ran'' = (Inr None, 1)"
    using enrichment_never_raises [of demo_lib demo_http 0 "''Ran''" "[]"] ran by auto
  have b: "attach_tmdb_card_by_title demo_lib demo_http 0 ''Offline'' = (Inr None, 1)"
    using enrichment_never_raises [of demo_lib demo_http 0 "''Offline''" "[]"] off by auto
  have c: "attach_tmdb_card_by_title demo_lib demo_http 0 ''Pi'' = (Inr None, 1)"
    using enrichment_never_raises [of demo_lib demo_http 0 "''Pi''" "[]"] pi key body by auto
  have d: "\<exists>items w'. enrich demo_lib demo_http 0 [(''Up'', 2), (''Ran'', 2)] [] = (Inr items, w') \<and>
      map item_title items = [''Up'', ''Ran''] \<and> map item_score items = [2, 2]"
    using enrichment_never_raises [of demo_lib demo_http 0 "''Up''" "[(''Up'', 2), (''Ran'', 2)]"]
    by simp
  show ?thesis using ran off pi key body a b c d by simp
qed

section \<open>The search handler\<close>

subsection \<open>Which errors can be a 404\<close>

lemma no404_Inl [simp]: "raises_no_404 (Inl e) \<longleftrightarrow> \<not> is_404 e"
  by (simp add: raises_no_404_def)

lemma no404_ebind:
  "raises_no_404 x \<Longrightarrow> (\<And>v. raises_no_404 (f v)) \<Longrightarrow> raises_no_404 (ebind x f)"
  by (cases x) (simp_all add: ebind_def)

lemma no404_Inr: "raises_no_404 (Inr v)"
  by (simp add: raises_no_404_def)

lemma no404_py_get: "raises_no_404 (py_get j k)"
  by (cases j) (simp_all add: raises_no_404_def split: option.splits)

lemma no404_py_get_default: "raises_no_404 (py_get_default j k d)"
  by (cases j) (simp_all add: raises_no_404_def split: option.splits)

lemma no404_py_subscript: "raises_no_404 (py_subscript j k)"
  by (cases j) (simp_all add: raises_no_404_def split: option.splits)

lemma no404_py_index0: "raises_no_404 (py_index0 j)"
  by (cases j rule: py_index0.cases) (simp_all add: raises_no_404_def)

lemma no404_valid_int: "raises_no_404 (valid_int j)"
  by (cases j) (simp_all add: raises_no_404_def)

lemma no404_valid_str: "raises_no_404 (valid_str j)"
  by (cases j) (simp_all add: raises_no_404_def)

lemma no404_valid_opt_str: "raises_no_404 (valid_opt_str j)"
  by (cases j) (simp_all add: raises_no_404_def)

lemma no404_valid_opt_float: "raises_no_404 (valid_opt_float j)"
  by (cases j) (simp_all add: raises_no_404_def)

lemma no404_valid_dict_list: "raises_no_404 (valid_dict_list j)"
  by (cases j) (simp_all add: raises_no_404_def)

lemma no404_py_int: "raises_no_404 (py_int L j)"
  by (cases j) (simp_all add: raises_no_404_def split: option.splits)

lemma no404_sliced_results: "raises_no_404 (sliced_results j n)"
  by (cases j) (simp_all add: raises_no_404_def)

lemma no404_emap: "(\<And>x. raises_no_404 (f x)) \<Longrightarrow> raises_no_404 (emap f xs)"
  by (induction xs) (simp_all add: no404_ebind no404_Inr)

lemmas no404_prims = no404_Inr no404_py_get no404_py_get_default no404_py_subscript
  no404_py_index0 no404_valid_int no404_valid_str no404_valid_opt_str no404_valid_opt_float
  no404_valid_dict_list no404_py_int no404_sliced_results

lemma no404_card_from_result: "raises_no_404 (card_from_result L m)"
  unfolding card_from_result_def by (intro no404_ebind no404_prims)

lemma no404_cards: "raises_no_404 (tmdb_cards_from_results L rs n)"
  unfolding tmdb_cards_from_results_def
  by (intro no404_ebind no404_prims no404_emap no404_card_from_result)

lemma no404_details_from_data: "raises_no_404 (details_from_data L d)"
  unfolding details_from_data_def by (intro no404_ebind no404_prims)

lemma no404_first_result: "raises_no_404 (first_result d)"
  unfolding first_result_def
  by (intro no404_ebind no404_prims) (simp add: no404_ebind no404_prims)

lemma no404_tmdb_get: "raises_no_404 (fst (tmdb_get http w req))"
  by (simp add: tmdb_get_def raises_no_404_def
      split: prod.splits http_result.splits option.splits)

lemma no404_tmdb_search_first: "raises_no_404 (fst (tmdb_search_first http w q))"
  using no404_tmdb_get [of http w "Search_movie q"] no404_first_result
  by (auto simp: tmdb_search_first_def split: prod.splits sum.splits)

lemma no404_tmdb_movie_details: "raises_no_404 (fst (tmdb_movie_details L http w i))"
  using no404_tmdb_get [of http w "Movie_by_id i"] no404_details_from_data
  by (auto simp: tmdb_movie_details_def split: prod.splits sum.splits)

lemma no404_genre_step: "raises_no_404 (fst (genre_step L http w d n))"
proof (cases "details_genres d")
  case Nil
  then show ?thesis by (simp add: genre_step_def no404_Inr)
next
  case (Cons g gs)
  show ?thesis
  proof (cases "py_subscript g ''id''")
    case (Inl e)
    then show ?thesis using no404_py_subscript [of g "''id''"] Cons
      by (simp add: genre_step_def)
  next
    case (Inr gid)
    have "raises_no_404 (ebind (py_get_default j ''results'' (JArr []))
            (\<lambda>rs. tmdb_cards_from_results L rs n))" for j
      by (intro no404_ebind no404_prims no404_cards)
    then show ?thesis
      using no404_tmdb_get [of http w "Discover_movie gid"] Cons Inr
      by (auto simp: genre_step_def split: prod.splits sum.splits)
  qed
qed

subsection \<open>A successful run, step by step\<close>

lemma search_bundle_run:
  assumes "tmdb_search_first http w q = (Inr best, w1)"
    and "truthy best"
    and "py_subscript best ''id'' = Inr movie_id"
    and "tmdb_movie_details L http w1 movie_id = (Inr details, w2)"
    and "enrich L http w2 (local_recs L env (details_title details) top_n) [] = (Inr items, w3)"
    and "genre_step L http w3 details genre_limit = (Inr genre_recs, w4)"
  shows "search_bundle L http env w q top_n genre_limit =
           (Inr \<lparr>query = q, movie_details = details,
                 tfidf_recommendations = apply_fallback top_n items genre_recs,
                 genre_recommendations = genre_recs\<rparr>, w4)"
  using assms by (simp add: search_bundle_def)

lemma slice_length:
  "0 \<le> n \<Longrightarrow> length (py_slice_to n xs) = min (nat n) (length xs)"
  by (simp add: py_slice_to_def)

lemma slice_nth:
  "i < length (py_slice_to n xs) \<Longrightarrow> py_slice_to n xs ! i = xs ! i"
  by (simp add: py_slice_to_def split: if_splits)

lemma demo_details_Heat:
  "tmdb_movie_details demo_lib demo_http w (JInt 1) =
     (Inr (demo_details 1 ''Heat'' [JObj [(''id'', JInt 18)]]), Suc w)"
  by (simp add: tmdb_movie_details_def demo_bodies json_ops demo_details_def)

lemma demo_details_Solaris:
  "tmdb_movie_details demo_lib demo_http w (JInt 2) =
     (Inr (demo_details 2 ''Solaris'' [JObj [(''id'', JInt 878)]]), Suc w)"
  by (simp add: tmdb_movie_details_def demo_bodies json_ops demo_details_def)

lemma demo_details_Orphan:
  "tmdb_movie_details demo_lib demo_http w (JInt 4) = (Inr (demo_details 4 ''Orphan'' []), Suc w)"
  by (simp add: tmdb_movie_details_def demo_bodies json_ops demo_details_def)

lemma demo_card_of_obj: "card_from_result demo_lib (movie_obj i t) = Inr (demo_card i t)"
  by (simp add: movie_obj_def demo_card_def json_ops)

lemma demo_genre_Solaris:
  "genre_step demo_lib demo_http w (demo_details 2 ''Solaris'' [JObj [(''id'', JInt 878)]]) 12 =
     (Inr [demo_card 10 ''Alien'', demo_card 11 ''Brazil'', demo_card 12 ''Stalker''], Suc w)"
  by (simp add: genre_step_def demo_details_def demo_http_def results_body_def tmdb_get_def
      tmdb_cards_from_results_def py_slice_to_def demo_card_of_obj ebind_def)

lemma demo_genre_Heat:
  "genre_step demo_lib demo_http w (demo_details 1 ''Heat'' [JObj [(''id'', JInt 18)]]) 12 =
     (Inr [demo_card 3 ''Up''], Suc w)"
  by (simp add: genre_step_def demo_details_def demo_http_def results_body_def tmdb_get_def
      tmdb_cards_from_results_def py_slice_to_def demo_card_of_obj ebind_def)

lemma demo_genre_Orphan:
  "genre_step demo_lib demo_http w (demo_details 4 ''Orphan'' []) 12 = (Inr [], w)"
  by (simp add: genre_step_def demo_details_def)

lemma demo_idx_stranger:
  assumes "norm_title t = ''solaris'' \<or> norm_title t = ''orphan''"
  shows "get_local_idx_by_title demo_lib demo_env t = Inl (HTTPException 404 Title_not_in_dataset)"
proof -
  have miss: "map_of (TITLE_TO_IDX demo_env) (norm_title t) = None"
    using assms by (auto simp: demo_env_def)
  have "\<forall>x \<in> set (map fst (TITLE_TO_IDX demo_env)). ratio demo_lib x (norm_title t) < 6 / 10"
    using demo_ratio_stranger [OF assms] by (simp add: demo_env_def)
  then have "get_close_matches demo_lib (norm_title t) (map fst (TITLE_TO_IDX demo_env)) (6 / 10) = []"
    by (rule get_close_matches_none)
  then show ?thesis
    using miss by (simp add: get_local_idx_by_title_def get_best_local_title_def)
qed

lemma demo_local_Solaris:
  "tfidf_recommend_titles demo_lib demo_env ''Solaris'' n =
     Inl (HTTPException 404 Title_not_in_dataset)"
  by (simp add: tfidf_recommend_titles_def demo_idx_stranger norm_Solaris)

lemma demo_local_Orphan:
  "tfidf_recommend_titles demo_lib demo_env ''Orphan'' n =
     Inl (HTTPException 404 Title_not_in_dataset)"
  by (simp add: tfidf_recommend_titles_def demo_idx_stranger norm_Orphan)

subsection \<open>Not found\<close>

text \<open>
  Claim C6. The handler fails with an HTTP 404 exactly when the catalogue search
  answers and gives no result for the query, that is when \<^verbatim>\<open>tmdb_search_first\<close> returns
  a value that \<^verbatim>\<open>not best\<close> takes for absent (\<^verbatim>\<open>None\<close>, or an empty first entry). A failed
  search call, the details fetch, the local similarity step, the enrichment and the
  genre discovery never end the handler with a 404.
\<close>

theorem search_bundle_404_iff:
  "(\<exists>e w'. search_bundle L http env w q top_n genre_limit = (Inl e, w') \<and> is_404 e) \<longleftrightarrow>
   (\<exists>best w1. tmdb_search_first http w q = (Inr best, w1) \<and> \<not> truthy best)"
proof
  assume "\<exists>best w1. tmdb_search_first http w q = (Inr best, w1) \<and> \<not> truthy best"
  then show "\<exists>e w'. search_bundle L http env w q top_n genre_limit = (Inl e, w') \<and> is_404 e"
    by (auto simp: search_bundle_def)
next
  assume "\<exists>e w'. search_bundle L http env w q top_n genre_limit = (Inl e, w') \<and> is_404 e"
  then obtain e w' where sb: "search_bundle L http env w q top_n genre_limit = (Inl e, w')"
    and e: "is_404 e" by blast
  obtain r1 w1 where s1: "tmdb_search_first http w q = (r1, w1)"
    by (cases "tmdb_search_first http w q")
  show "\<exists>best w1. tmdb_search_first http w q = (Inr best, w1) \<and> \<not> truthy best"
  proof (cases r1)
    case (Inl e1)
    then have "e = e1" using sb s1 by (simp add: search_bundle_def)
    then show ?thesis using no404_tmdb_search_first [of http w q] s1 Inl e
      by (simp add: raises_no_404_def)
  next
    case best: (Inr best)
    show ?thesis
    proof (cases "truthy best")
      case False
      then show ?thesis using s1 best by simp
    next
      case True
      show ?thesis
      proof (cases "py_subscript best ''id''")
        case (Inl e2)
        then have "e = e2" using sb s1 best True by (simp add: search_bundle_def)
        then show ?thesis using no404_py_subscript [of best "''id''"] Inl e
          by (simp add: raises_no_404_def)
      next
        case mid: (Inr movie_id)
        obtain r2 w2 where s2: "tmdb_movie_details L http w1 movie_id = (r2, w2)"
          by (cases "tmdb_movie_details L http w1 movie_id")
        show ?thesis
        proof (cases r2)
          case (Inl e3)
          then have "e = e3" using sb s1 best True mid s2 by (simp add: search_bundle_def)
          then show ?thesis using no404_tmdb_movie_details [of L http w1 movie_id] s2 Inl e
            by (simp add: raises_no_404_def)
        next
          case det: (Inr details)
          obtain items w3 where s3:
            "enrich L http w2 (local_recs L env (details_title details) top_n) [] = (Inr items, w3)"
            using enrich_total [of L http w2 "local_recs L env (details_title details) top_n" "[]"]
            by auto
          obtain r4 w4 where s4: "genre_step L http w3 details genre_limit = (r4, w4)"
            by (cases "genre_step L http w3 details genre_limit")
          show ?thesis
          proof (cases r4)
            case (Inl e4)
            then have "e = e4" using sb s1 best True mid s2 det s3 s4
              by (simp add: search_bundle_def)
            then show ?thesis
              using no404_genre_step [of L http w3 details genre_limit] s4 Inl e
              by (simp add: raises_no_404_def)
          next
            case (Inr cards)
            then show ?thesis using sb s1 best True mid s2 det s3 s4
              by (simp add: search_bundle_def)
          qed
        qed
      qed
    qed
  qed
qed

text \<open>
  The catalogue has no result for ``Nope'': the handler fails with a 404. It answers
  ``Blank'' with one result that is an empty object, which \<^verbatim>\<open>not best\<close> also takes for
  absent: 404 again. It has a result for ``Orphan'', a title that the local index
  lacks: the handler does not fail.
\<close>

theorem search_bundle_404_iff_witness:
  "tmdb_search_first demo_http 0 ''Nope'' = (Inr JNull, 1) \<and> \<not> truthy JNull \<and>
   (\<exists>e w'. search_bundle demo_lib demo_http demo_env 0 ''Nope'' 12 12 = (Inl e, w') \<and> is_404 e) \<and>
   tmdb_search_first demo_http 0 ''Blank'' = (Inr (JObj []), 1) \<and> \<not> truthy (JObj []) \<and>
   (\<exists>e w'. search_bundle demo_lib demo_http demo_env 0 ''Blank'' 12 12 = (Inl e, w') \<and> is_404 e) \<and>
   tmdb_search_first demo_http 0 ''Orphan'' = (Inr (movie_obj 4 ''Orphan''), 1) \<and>
   truthy (movie_obj 4 ''Orphan'') \<and>
   \<not> (\<exists>e w'. search_bundle demo_lib demo_http demo_env 0 ''Orphan'' 12 12 = (Inl e, w') \<and>
         is_404 e)"
proof -
  have nope: "tmdb_search_first demo_http 0 ''Nope'' = (Inr JNull, 1)"
    using demo_search_Nope [of 0] by simp
  have blank: "tmdb_search_first demo_http 0 ''Blank'' = (Inr (JObj []), 1)"
    using demo_search_Blank [of 0] by simp
  have orphan: "tmdb_search_first demo_http 0 ''Orphan'' = (Inr (movie_obj 4 ''Orphan''), 1)"
    using demo_search_hit [of "''Orphan''" 0] by simp
  have a: "\<exists>e w'. search_bundle demo_lib demo_http demo_env 0 ''Nope'' 12 12 = (Inl e, w') \<and>
      is_404 e"
    using search_bundle_404_iff [of demo_lib demo_http demo_env 0 "''Nope''" 12 12] nope
    by simp
  have b: "\<exists>e w'. search_bundle demo_lib demo_http demo_env 0 ''Blank'' 12 12 = (Inl e, w') \<and>
      is_404 e"
    using search_bundle_404_iff [of demo_lib demo_http demo_env 0 "''Blank''" 12 12] blank
    by simp
  have c: "\<not> (\<exists>e w'. search_bundle demo_lib demo_http demo_env 0 ''Orphan'' 12 12 = (Inl e, w') \<and>
      is_404 e)"
    using search_bundle_404_iff [of demo_lib demo_http demo_env 0 "''Orphan''" 12 12] orphan
    by (simp add: demo_movie_truthy)
  show ?thesis using nope blank orphan a b c by (simp add: demo_movie_truthy)
qed

subsection \<open>Failure of the local similarity step\<close>

text \<open>
  Claim C7. Let the catalogue search and the details fetch succeed. If the local
  similarity step raises, whatever the exception, the handler goes on with an empty
  list of hits: it makes no enrichment call and its outcome is that of the genre
  discovery step, whose cards it returns with the fallback applied to the empty list.
  The exception of the local step does not appear in the outcome.
\<close>

theorem local_failure_swallowed:
  assumes first: "tmdb_search_first http w q = (Inr best, w1)"
    and found: "truthy best"
    and mid: "py_subscript best ''id'' = Inr movie_id"
    and det: "tmdb_movie_details L http w1 movie_id = (Inr details, w2)"
    and fails: "tfidf_recommend_titles L env (details_title details) top_n = Inl e"
  shows "local_recs L env (details_title details) top_n = [] \<and>
         search_bundle L http env w q top_n genre_limit =
           (case genre_step L http w2 details genre_limit of
              (Inl e', w3) \<Rightarrow> (Inl e', w3)
            | (Inr genre_recs, w3) \<Rightarrow>
                (Inr \<lparr>query = q, movie_details = details,
                      tfidf_recommendations = apply_fallback top_n [] genre_recs,
                      genre_recommendations = genre_recs\<rparr>, w3))"
  using assms by (simp add: search_bundle_def local_recs_def split: prod.splits sum.splits)

text \<open>
  ``Orphan'' is in the catalogue, without genres, and not in the local index: the
  local step raises its 404 and the handler returns a response with two empty lists.
\<close>

theorem local_failure_swallowed_witness:
  "tmdb_search_first demo_http 0 ''Orphan'' = (Inr (movie_obj 4 ''Orphan''), 1) \<and>
   truthy (movie_obj 4 ''Orphan'') \<and>
   py_subscript (movie_obj 4 ''Orphan'') ''id'' = Inr (JInt 4) \<and>
   tmdb_movie_details demo_lib demo_http 1 (JInt 4) = (Inr (demo_details 4 ''Orphan'' []), 2) \<and>
   tfidf_recommend_titles demo_lib demo_env ''Orphan'' 12 =
     Inl (HTTPException 404 Title_not_in_dataset) \<and>
   search_bundle demo_lib demo_http demo_env 0 ''Orphan'' 12 12 =
     (Inr \<lparr>query = ''Orphan'', movie_details = demo_details 4 ''Orphan'' [],
           tfidf_recommendations = [], genre_recommendations = []\<rparr>, 2)"
proof -
  have first: "tmdb_search_first demo_http 0 ''Orphan'' = (Inr (movie_obj 4 ''Orphan''), 1)"
    using demo_search_hit [of "''Orphan''" 0] by simp
  have det: "tmdb_movie_details demo_lib demo_http 1 (JInt 4) =
      (Inr (demo_details 4 ''Orphan'' []), 2)"
    using demo_details_Orphan [of 1] by (simp add: numeral_2_eq_2)
  have fails: "tfidf_recommend_titles demo_lib demo_env
      (details_title (demo_details 4 ''Orphan'' [])) 12 =
      Inl (HTTPException 404 Title_not_in_dataset)"
    by (simp add: demo_details_def demo_local_Orphan)
  from local_failure_swallowed [OF first demo_movie_truthy demo_movie_id det fails, of 12]
  have "search_bundle demo_lib demo_http demo_env 0 ''Orphan'' 12 12 =
     (Inr \<lparr>query = ''Orphan'', movie_details = demo_details 4 ''Orphan'' [],
           tfidf_recommendations = [], genre_recommendations = []\<rparr>, 2)"
    by (simp add: demo_genre_Orphan apply_fallback_def)
  then show ?thesis
    using first det by (simp add: demo_movie_truthy demo_movie_id demo_local_Orphan)
qed

subsection \<open>The fallback\<close>

lemma demo_run_Solaris:
  "search_bundle demo_lib demo_http demo_env 0 ''Solaris'' top_n 12 =
     (Inr \<lparr>query = ''Solaris'',
           movie_details = demo_details 2 ''Solaris'' [JObj [(''id'', JInt 878)]],
           tfidf_recommendations =
             map fallback_item (py_slice_to top_n
               [demo_card 10 ''Alien'', demo_card 11 ''Brazil'', demo_card 12 ''Stalker'']),
           genre_recommendations =
             [demo_card 10 ''Alien'', demo_card 11 ''Brazil'', demo_card 12 ''Stalker'']\<rparr>, 3)"
proof -
  have first: "tmdb_search_first demo_http 0 ''Solaris'' = (Inr (movie_obj 2 ''Solaris''), 1)"
    using demo_search_hit [of "''Solaris''" 0] by simp
  have det: "tmdb_movie_details demo_lib demo_http 1 (JInt 2) =
      (Inr (demo_details 2 ''Solaris'' [JObj [(''id'', JInt 878)]]), 2)"
    using demo_details_Solaris [of 1] by (simp add: numeral_2_eq_2)
  have loc: "enrich demo_lib demo_http 2
      (local_recs demo_lib demo_env
         (details_title (demo_details 2 ''Solaris'' [JObj [(''id'', JInt 878)]])) top_n) [] =
      (Inr [], 2)"
    by (simp add: local_recs_def demo_details_def demo_local_Solaris)
  have gen: "genre_step demo_lib demo_http 2
      (demo_details 2 ''Solaris'' [JObj [(''id'', JInt 878)]]) 12 =
      (Inr [demo_card 10 ''Alien'', demo_card 11 ''Brazil'', demo_card 12 ''Stalker''], 3)"
    using demo_genre_Solaris [of 2] by (simp add: numeral_3_eq_3 numeral_2_eq_2)
  from search_bundle_run [OF first demo_movie_truthy demo_movie_id det loc gen]
  show ?thesis by (simp add: apply_fallback_def)
qed

text \<open>
  Claim C1 as stated fails for a negative \<open>top_n\<close>. ``Solaris'' is in the catalogue and
  not in the local index, and genre discovery returns three cards. With
  \<open>tfidf_top_n = -1\<close> the slice \<^verbatim>\<open>genre_recs[:-1]\<close> keeps two cards, so the similarity
  list has two items, which is not the minimum of \<open>-1\<close> and \<open>3\<close>.
\<close>

theorem fallback_negative_top_n_counterexample:
  "local_recs demo_lib demo_env ''Solaris'' (- 1) = [] \<and>
   search_bundle demo_lib demo_http demo_env 0 ''Solaris'' (- 1) 12 =
     (Inr \<lparr>query = ''Solaris'',
           movie_details = demo_details 2 ''Solaris'' [JObj [(''id'', JInt 878)]],
           tfidf_recommendations =
             [fallback_item (demo_card 10 ''Alien''), fallback_item (demo_card 11 ''Brazil'')],
           genre_recommendations =
             [demo_card 10 ''Alien'', demo_card 11 ''Brazil'', demo_card 12 ''Stalker'']\<rparr>, 3) \<and>
   int (length [fallback_item (demo_card 10 ''Alien''), fallback_item (demo_card 11 ''Brazil'')])
     \<noteq> min (- 1)
          (int (length [demo_card 10 ''Alien'', demo_card 11 ''Brazil'', demo_card 12 ''Stalker'']))"
  using demo_run_Solaris [of "- 1"]
  by (simp add: py_slice_to_def local_recs_def demo_local_Solaris)

text \<open>
  Claim C1, amended. Let the catalogue search and the details fetch succeed, let the
  local similarity step give no hit and let genre discovery return at least one card.
  Then the handler returns a response whose similarity list is the image of the slice
  \<^verbatim>\<open>genre_recs[:tfidf_top_n]\<close> of the genre cards: item \<open>i\<close> has score 0, the title of
  genre card \<open>i\<close> and that card as its enrichment, in the order of the genre cards. For
  \<open>tfidf_top_n\<close> at least 0 the list has \<open>min tfidf_top_n (length genre_recs)\<close> items.
\<close>

theorem fallback_law:
  assumes first: "tmdb_search_first http w q = (Inr best, w1)"
    and found: "truthy best"
    and mid: "py_subscript best ''id'' = Inr movie_id"
    and det: "tmdb_movie_details L http w1 movie_id = (Inr details, w2)"
    and none: "local_recs L env (details_title details) top_n = []"
    and genre: "genre_step L http w2 details genre_limit = (Inr genre_recs, w3)"
    and some: "genre_recs \<noteq> []"
  shows "\<exists>b. search_bundle L http env w q top_n genre_limit = (Inr b, w3) \<and>
           tfidf_recommendations b = map fallback_item (py_slice_to top_n genre_recs) \<and>
           (0 \<le> top_n \<longrightarrow>
              length (tfidf_recommendations b) = min (nat top_n) (length genre_recs)) \<and>
           (\<forall>i < length (tfidf_recommendations b).
              item_score (tfidf_recommendations b ! i) = 0 \<and>
              item_tmdb (tfidf_recommendations b ! i) = Some (genre_recs ! i) \<and>
              item_title (tfidf_recommendations b ! i) = card_title (genre_recs ! i))"
proof -
  let ?items = "map fallback_item (py_slice_to top_n genre_recs)"
  let ?b = "\<lparr>query = q, movie_details = details, tfidf_recommendations = ?items,
             genre_recommendations = genre_recs\<rparr>"
  have run: "search_bundle L http env w q top_n genre_limit = (Inr ?b, w3)"
    using assms by (simp add: search_bundle_def apply_fallback_def)
  have len: "0 \<le> top_n \<longrightarrow> length ?items = min (nat top_n) (length genre_recs)"
    by (simp add: slice_length)
  have each: "\<forall>i < length ?items.
      item_score (?items ! i) = 0 \<and> item_tmdb (?items ! i) = Some (genre_recs ! i) \<and>
      item_title (?items ! i) = card_title (genre_recs ! i)"
    by (simp add: fallback_item_def slice_nth)
  show ?thesis
    by (rule exI [of _ ?b]) (use run len each in simp)
qed

text \<open>
  The same query with \<open>tfidf_top_n = 2\<close>: the similarity list has two items, and the
  first has score 0 and carries the first genre card.
\<close>

theorem fallback_law_witness:
  "tmdb_search_first demo_http 0 ''Solaris'' = (Inr (movie_obj 2 ''Solaris''), 1) \<and>
   truthy (movie_obj 2 ''Solaris'') \<and>
   py_subscript (movie_obj 2 ''Solaris'') ''id'' = Inr (JInt 2) \<and>
   tmdb_movie_details demo_lib demo_http 1 (JInt 2) =
     (Inr (demo_details 2 ''Solaris'' [JObj [(''id'', JInt 878)]]), 2) \<and>
   local_recs demo_lib demo_env ''Solaris'' 2 = [] \<and>
   genre_step demo_lib demo_http 2 (demo_details 2 ''Solaris'' [JObj [(''id'', JInt 878)]]) 12 =
     (Inr [demo_card 10 ''Alien'', demo_card 11 ''Brazil'', demo_card 12 ''Stalker''], 3) \<and>
   (\<exists>b. search_bundle demo_lib demo_http demo_env 0 ''Solaris'' 2 12 = (Inr b, 3) \<and>
      length (tfidf_recommendations b) = 2 \<and>
      item_score (tfidf_recommendations b ! 0) = 0 \<and>
      item_tmdb (tfidf_recommendations b ! 0) = Some (demo_card 10 ''Alien''))"
proof -
  let ?d = "demo_details 2 ''Solaris'' [JObj [(''id'', JInt 878)]]"
  let ?cards = "[demo_card 10 ''Alien'', demo_card 11 ''Brazil'', demo_card 12 ''Stalker'']"
  have first: "tmdb_search_first demo_http 0 ''Solaris'' = (Inr (movie_obj 2 ''Solaris''), 1)"
    using demo_search_hit [of "''Solaris''" 0] by simp
  have det: "tmdb_movie_details demo_lib demo_http 1 (JInt 2) = (Inr ?d, 2)"
    using demo_details_Solaris [of 1] by (simp add: numeral_2_eq_2)
  have none: "local_recs demo_lib demo_env (details_title ?d) 2 = []"
    by (simp add: local_recs_def demo_details_def demo_local_Solaris)
  have gen: "genre_step demo_lib demo_http 2 ?d 12 = (Inr ?cards, 3)"
    using demo_genre_Solaris [of 2] by (simp add: numeral_3_eq_3 numeral_2_eq_2)
  have some: "?cards \<noteq> []" by simp
  from fallback_law [OF first demo_movie_truthy demo_movie_id det none gen some]
  obtain b where b: "search_bundle demo_lib demo_http demo_env 0 ''Solaris'' 2 12 = (Inr b, 3)"
    "0 \<le> (2::int) \<longrightarrow> length (tfidf_recommendations b) = min (nat 2) (length ?cards)"
    "\<forall>i < length (tfidf_recommendations b).
       item_score (tfidf_recommendations b ! i) = 0 \<and>
       item_tmdb (tfidf_recommendations b ! i) = Some (?cards ! i) \<and>
       item_title (tfidf_recommendations b ! i) = card_title (?cards ! i)"
    by blast
  have l: "length (tfidf_recommendations b) = 2" using b(2) by simp
  then have "item_score (tfidf_recommendations b ! 0) = 0 \<and>
      item_tmdb (tfidf_recommendations b ! 0) = Some (demo_card 10 ''Alien'')"
    using b(3) by simp
  with b(1) l have "\<exists>b. search_bundle demo_lib demo_http demo_env 0 ''Solaris'' 2 12 = (Inr b, 3) \<and>
      length (tfidf_recommendations b) = 2 \<and>
      item_score (tfidf_recommendations b ! 0) = 0 \<and>
      item_tmdb (tfidf_recommendations b ! 0) = Some (demo_card 10 ''Alien'')"
    by blast
  then show ?thesis
    using first det none gen
    by (simp add: demo_movie_truthy demo_movie_id demo_details_def)
qed

subsection \<open>What the fallback leaves alone\<close>

text \<open>
  Claim C10. In every response that the handler returns, \<open>query\<close> is the query of the
  request, \<open>movie_details\<close> is what the details fetch returned, and
  \<open>genre_recommendations\<close> is what the genre discovery step returned, run after the
  enrichment calls; it is empty when the details carry no genre. The fallback decides
  \<open>tfidf_recommendations\<close> only.
\<close>

theorem bundle_frame:
  assumes "search_bundle L http env w q top_n genre_limit = (Inr b, w')"
  shows "query b = q \<and>
         (\<exists>best w1 movie_id details w2 items w3.
            tmdb_search_first http w q = (Inr best, w1) \<and>
            py_subscript best ''id'' = Inr movie_id \<and>
            tmdb_movie_details L http w1 movie_id = (Inr details, w2) \<and>
            enrich L http w2 (local_recs L env (details_title details) top_n) [] =
              (Inr items, w3) \<and>
            genre_step L http w3 details genre_limit = (Inr (genre_recommendations b), w') \<and>
            movie_details b = details \<and>
            tfidf_recommendations b = apply_fallback top_n items (genre_recommendations b) \<and>
            (details_genres details = [] \<longrightarrow> genre_recommendations b = []))"
proof -
  obtain r1 w1 where s1: "tmdb_search_first http w q = (r1, w1)"
    by (cases "tmdb_search_first http w q")
  from assms s1 obtain best where best: "r1 = Inr best" "truthy best"
    by (cases r1) (auto simp: search_bundle_def split: if_splits)
  from assms s1 best obtain movie_id where mid: "py_subscript best ''id'' = Inr movie_id"
    by (cases "py_subscript best ''id''") (auto simp: search_bundle_def)
  obtain r2 w2 where s2: "tmdb_movie_details L http w1 movie_id = (r2, w2)"
    by (cases "tmdb_movie_details L http w1 movie_id")
  from assms s1 best mid s2 obtain details where det: "r2 = Inr details"
    by (cases r2) (auto simp: search_bundle_def)
  obtain items w3 where s3:
    "enrich L http w2 (local_recs L env (details_title details) top_n) [] = (Inr items, w3)"
    using enrich_total [of L http w2 "local_recs L env (details_title details) top_n" "[]"]
    by auto
  obtain r4 w4 where s4: "genre_step L http w3 details genre_limit = (r4, w4)"
    by (cases "genre_step L http w3 details genre_limit")
  from assms s1 best mid s2 det s3 s4 obtain genre_recs where g: "r4 = Inr genre_recs"
    by (cases r4) (auto simp: search_bundle_def)
  have b: "b = \<lparr>query = q, movie_details = details,
                tfidf_recommendations = apply_fallback top_n items genre_recs,
                genre_recommendations = genre_recs\<rparr>" and w': "w' = w4"
    using assms s1 best mid s2 det s3 s4 g by (simp_all add: search_bundle_def)
  have empty: "details_genres details = [] \<longrightarrow> genre_recs = []"
    using s4 g by (auto simp: genre_step_def)
  show ?thesis
    using s1 best mid s2 det s3 s4 g b w' empty by simp
qed

lemma demo_run_Heat:
  "search_bundle demo_lib demo_http demo_env 0 ''Heat'' 12 12 =
     (Inr \<lparr>query = ''Heat'',
           movie_details = demo_details 1 ''Heat'' [JObj [(''id'', JInt 18)]],
           tfidf_recommendations =
             [\<lparr>item_title = ''Up'', item_score = 2, item_tmdb = Some (demo_card 3 ''Up'')\<rparr>,
              \<lparr>item_title = ''Ran'', item_score = 2, item_tmdb = None\<rparr>],
           genre_recommendations = [demo_card 3 ''Up'']\<rparr>, 5)"
proof -
  let ?d = "demo_details 1 ''Heat'' [JObj [(''id'', JInt 18)]]"
  have first: "tmdb_search_first demo_http 0 ''Heat'' = (Inr (movie_obj 1 ''Heat''), 1)"
    using demo_search_hit [of "''Heat''" 0] by simp
  have det: "tmdb_movie_details demo_lib demo_http 1 (JInt 1) = (Inr ?d, 2)"
    using demo_details_Heat [of 1] by (simp add: numeral_2_eq_2)
  have loc: "enrich demo_lib demo_http 2 (local_recs demo_lib demo_env (details_title ?d) 12) [] =
      (Inr [\<lparr>item_title = ''Up'', item_score = 2, item_tmdb = Some (demo_card 3 ''Up'')\<rparr>,
            \<lparr>item_title = ''Ran'', item_score = 2, item_tmdb = None\<rparr>], 4)"
    using demo_enrich_Heat [of 2]
    by (simp add: local_recs_def demo_details_def demo_local_Heat eval_nat_numeral)
  have gen: "genre_step demo_lib demo_http 4 ?d 12 = (Inr [demo_card 3 ''Up''], 5)"
    using demo_genre_Heat [of 4] by (simp add: eval_nat_numeral)
  from search_bundle_run [OF first demo_movie_truthy demo_movie_id det loc gen]
  show ?thesis by (simp add: apply_fallback_def)
qed

lemma demo_run_Orphan:
  "search_bundle demo_lib demo_http demo_env 0 ''Orphan'' 12 12 =
     (Inr \<lparr>query = ''Orphan'', movie_details = demo_details 4 ''Orphan'' [],
           tfidf_recommendations = [], genre_recommendations = []\<rparr>, 2)"
proof -
  let ?d = "demo_details 4 ''Orphan'' []"
  have first: "tmdb_search_first demo_http 0 ''Orphan'' = (Inr (movie_obj 4 ''Orphan''), 1)"
    using demo_search_hit [of "''Orphan''" 0] by simp
  have det: "tmdb_movie_details demo_lib demo_http 1 (JInt 4) = (Inr ?d, 2)"
    using demo_details_Orphan [of 1] by (simp add: numeral_2_eq_2)
  have loc: "enrich demo_lib demo_http 2 (local_recs demo_lib demo_env (details_title ?d) 12) [] =
      (Inr [], 2)"
    by (simp add: local_recs_def demo_details_def demo_local_Orphan)
  have gen: "genre_step demo_lib demo_http 2 ?d 12 = (Inr [], 2)"
    by (rule demo_genre_Orphan)
  from search_bundle_run [OF first demo_movie_truthy demo_movie_id det loc gen]
  show ?thesis by (simp add: apply_fallback_def)
qed

text \<open>
  Two runs. For ``Heat'' the local step gives two hits, the fallback does not fire and
  the genre list is the one card that discovery returns after the two enrichment
  calls. For ``Orphan'' the details carry no genre and the genre list is empty.
\<close>

theorem bundle_frame_witness:
  "(\<exists>b. search_bundle demo_lib demo_http demo_env 0 ''Heat'' 12 12 = (Inr b, 5) \<and>
      query b = ''Heat'' \<and>
      (\<exists>details w3. genre_step demo_lib demo_http w3 details 12 =
          (Inr (genre_recommendations b), 5) \<and> movie_details b = details) \<and>
      genre_recommendations b = [demo_card 3 ''Up'']) \<and>
   (\<exists>b. search_bundle demo_lib demo_http demo_env 0 ''Orphan'' 12 12 = (Inr b, 2) \<and>
      query b = ''Orphan'' \<and>
      details_genres (movie_details b) = [] \<and> genre_recommendations b = [])"
proof -
  let ?h = "\<lparr>query = ''Heat'',
           movie_details = demo_details 1 ''Heat'' [JObj [(''id'', JInt 18)]],
           tfidf_recommendations =
             [\<lparr>item_title = ''Up'', item_score = 2, item_tmdb = Some (demo_card 3 ''Up'')\<rparr>,
              \<lparr>item_title = ''Ran'', item_score = 2, item_tmdb = None\<rparr>],
           genre_recommendations = [demo_card 3 ''Up'']\<rparr>"
  let ?o = "\<lparr>query = ''Orphan'', movie_details = demo_details 4 ''Orphan'' [],
           tfidf_recommendations = [], genre_recommendations = []\<rparr>"
  from bundle_frame [OF demo_run_Heat]
  have h: "query ?h = ''Heat'' \<and>
      (\<exists>details w3. genre_step demo_lib demo_http w3 details 12 =
          (Inr (genre_recommendations ?h), 5) \<and> movie_details ?h = details)"
    by blast
  from bundle_frame [OF demo_run_Orphan]
  obtain details where o: "query ?o = ''Orphan''" "movie_details ?o = details"
    "details_genres details = [] \<longrightarrow> genre_recommendations ?o = []"
    by blast
  have "details_genres (movie_details ?o) = []" by (simp add: demo_details_def)
  with o have o': "query ?o = ''Orphan'' \<and> details_genres (movie_details ?o) = [] \<and>
      genre_recommendations ?o = []"
    by simp
  show ?thesis
  proof (intro conjI)
    show "\<exists>b. search_bundle demo_lib demo_http demo_env 0 ''Heat'' 12 12 = (Inr b, 5) \<and>
      query b = ''Heat'' \<and>
      (\<exists>details w3. genre_step demo_lib demo_http w3 details 12 =
          (Inr (genre_recommendations b), 5) \<and> movie_details b = details) \<and>
      genre_recommendations b = [demo_card 3 ''Up'']"
      by (rule exI [of _ ?h]) (use demo_run_Heat h in simp)
    show "\<exists>b. search_bundle demo_lib demo_http demo_env 0 ''Orphan'' 12 12 = (Inr b, 2) \<and>
      query b = ''Orphan'' \<and>
      details_genres (movie_details b) = [] \<and> genre_recommendations b = []"
      by (rule exI [of _ ?o]) (use demo_run_Orphan o' in simp)
  qed
qed

end
